theory Spec2Isabelle
  imports Main
begin

section \<open>Python values and the operations the services use\<close>

text \<open>
  The services exchange JSON documents. A decoded document is a Python value built from
  \<open>None\<close>, booleans, integers, strings, lists and dictionaries with string keys. A dictionary
  is kept as an association list in insertion order (Python dictionaries keep it); a
  well-formed one has pairwise distinct keys. A Python \<open>str\<close> is modelled as a list of
  characters, each one a code point below 256; floating-point numbers are outside the model.
\<close>

datatype json =
    JNull
  | JBool bool
  | JInt int
  | JStr string
  | JArr "json list"
  | JObj "(string \<times> json) list"

text \<open>
  The exceptions that the modelled code can raise. \<open>DecodeError\<close> is what a JSON decoder
  raises for input it does not accept (\<open>JSONDecodeError\<close>), \<open>EncodeError\<close> what an encoder
  raises for a document it does not accept, and \<open>UnicodeDecodeError\<close> what
  \<open>bytes.decode("utf-8")\<close> raises for bytes that are not UTF-8.
\<close>

datatype py_error =
    DecodeError
  | EncodeError
  | KeyError
  | TypeError
  | AttributeError
  | ValueError
  | ValidationError
  | UnicodeDecodeError

text \<open>\<open>d.get(k, default)\<close>: only a dictionary has the method.\<close>

fun py_get :: "json \<Rightarrow> string \<Rightarrow> json \<Rightarrow> py_error + json" where
  "py_get (JObj kvs) k d = Inr (case map_of kvs k of None \<Rightarrow> d | Some v \<Rightarrow> v)"
| "py_get _ k d = Inl AttributeError"

text \<open>\<open>d[k]\<close> with a string key: a missing key raises, and so does any other value.\<close>

fun py_getitem :: "json \<Rightarrow> string \<Rightarrow> py_error + json" where
  "py_getitem (JObj kvs) k = (case map_of kvs k of None \<Rightarrow> Inl KeyError | Some v \<Rightarrow> Inr v)"
| "py_getitem _ k = Inl TypeError"

text \<open>Truth value of a Python object, as \<open>if x\<close> and \<open>not x\<close> test it.\<close>

fun py_truthy :: "json \<Rightarrow> bool" where
  "py_truthy JNull = False"
| "py_truthy (JBool b) = b"
| "py_truthy (JInt i) = (i \<noteq> 0)"
| "py_truthy (JStr s) = (s \<noteq> [])"
| "py_truthy (JArr xs) = (xs \<noteq> [])"
| "py_truthy (JObj kvs) = (kvs \<noteq> [])"

subsection \<open>Formatting: \<open>str\<close> and \<open>repr\<close>\<close>

definition digit_char :: "nat \<Rightarrow> char" where
  "digit_char d = char_of (48 + d)"

fun show_nat :: "nat \<Rightarrow> string" where
  "show_nat n = (if n < 10 then [digit_char n] else show_nat (n div 10) @ [digit_char (n mod 10)])"

declare show_nat.simps [simp del]

definition show_int :: "int \<Rightarrow> string" where
  "show_int i = (if i < 0 then CHR ''-'' # show_nat (nat (- i)) else show_nat (nat i))"

definition hex_char :: "nat \<Rightarrow> char" where
  "hex_char d = (if d < 10 then char_of (48 + d) else char_of (87 + d))"

text \<open>
  \<open>repr\<close> of a string: single quotes unless the string has a single quote and no double
  quote; the quote and the backslash are escaped, tab, newline and carriage return have
  short escapes, and every other character that is not printable is written \<open>\xhh\<close>.
\<close>

definition py_printable :: "char \<Rightarrow> bool" where
  "py_printable c = (let n = (of_char c :: nat) in
     (32 \<le> n \<and> n < 127) \<or> (161 \<le> n \<and> n \<noteq> 173))"

definition repr_char :: "char \<Rightarrow> char \<Rightarrow> string" where
  "repr_char q c =
     (if c = q \<or> c = CHR 0x5C then [CHR 0x5C, c]
      else if c = CHR 0x09 then [CHR 0x5C, CHR ''t'']
      else if c = CHR 0x0A then [CHR 0x5C, CHR ''n'']
      else if c = CHR 0x0D then [CHR 0x5C, CHR ''r'']
      else if py_printable c then [c]
      else [CHR 0x5C, CHR ''x'', hex_char (of_char c div 16), hex_char (of_char c mod 16)])"

definition repr_str :: "string \<Rightarrow> string" where
  "repr_str s =
     (let q = (if CHR 0x27 \<in> set s \<and> CHR 0x22 \<notin> set s then CHR 0x22 else CHR 0x27)
      in q # concat (map (repr_char q) s) @ [q])"

fun join_with :: "string \<Rightarrow> string list \<Rightarrow> string" where
  "join_with sep [] = []"
| "join_with sep [x] = x"
| "join_with sep (x # y # ys) = x @ sep @ join_with sep (y # ys)"

fun py_repr :: "json \<Rightarrow> string" where
  "py_repr JNull = ''None''"
| "py_repr (JBool b) = (if b then ''True'' else ''False'')"
| "py_repr (JInt i) = show_int i"
| "py_repr (JStr s) = repr_str s"
| "py_repr (JArr xs) = ''['' @ join_with '', '' (map py_repr xs) @ '']''"
| "py_repr (JObj kvs) =
     ''{'' @ join_with '', '' (map (\<lambda>(k, v). repr_str k @ '': '' @ py_repr v) kvs) @ ''}''"

text \<open>\<open>str(x)\<close>, which an f-string applies to each interpolated value.\<close>

fun py_str :: "json \<Rightarrow> string" where
  "py_str (JStr s) = s"
| "py_str v = py_repr v"

subsection \<open>String methods\<close>

text \<open>\<open>s.lower()\<close> on code points below 256.\<close>

definition lower_char :: "char \<Rightarrow> char" where
  "lower_char c = (let n = (of_char c :: nat) in
     if (65 \<le> n \<and> n \<le> 90) \<or> (192 \<le> n \<and> n \<le> 222 \<and> n \<noteq> 215)
     then char_of (n + 32) else c)"

definition py_lower :: "string \<Rightarrow> string" where
  "py_lower s = map lower_char s"

fun starts_with :: "string \<Rightarrow> string \<Rightarrow> bool" where
  "starts_with [] s = True"
| "starts_with (p # ps) [] = False"
| "starts_with (p # ps) (c # cs) = (p = c \<and> starts_with ps cs)"

text \<open>\<open>p in s\<close> for strings: \<open>p\<close> occurs in \<open>s\<close> as a contiguous substring.\<close>

fun py_in :: "string \<Rightarrow> string \<Rightarrow> bool" where
  "py_in p [] = (p = [])"
| "py_in p (c # cs) = (starts_with p (c # cs) \<or> py_in p cs)"

text \<open>
  \<open>s.split(sep)\<close>: cut at each occurrence of the separator, scanning from the left; an
  empty separator raises \<open>ValueError\<close>.
\<close>

function split_from :: "string \<Rightarrow> string \<Rightarrow> string \<Rightarrow> string list" where
  "split_from sep cur [] = [cur]"
| "split_from sep cur (c # cs) =
     (if sep \<noteq> [] \<and> starts_with sep (c # cs)
      then cur # split_from sep [] (drop (length sep) (c # cs))
      else split_from sep (cur @ [c]) cs)"
  by pat_completeness auto
termination
  by (relation "measure (\<lambda>(sep, cur, s). length s)") auto

definition py_split :: "string \<Rightarrow> string \<Rightarrow> py_error + string list" where
  "py_split s sep = (if sep = [] then Inl ValueError else Inr (split_from sep [] s))"

section \<open>Messages of the example services (\<open>common.py\<close>)\<close>

text \<open>
  A dataclass does not check its field types when it is built, so a field holds whatever
  value it is given; \<open>deserialize\<close> stores what the decoded document has under the key.
  The field \<open>method\<close> is named \<open>rpc_method\<close> here.
\<close>

record RequestMessage =
  rpc_method :: json
  params :: json

record ResponseMessage =
  result :: json

section \<open>Unary service: \<open>GreeterServicer\<close> (\<open>server.py\<close>)\<close>

definition say_hello :: "RequestMessage \<Rightarrow> py_error + string" where
  "say_hello request =
     (case py_get (params request) ''name'' (JStr ''Guest'') of
        Inl e \<Rightarrow> Inl e
      | Inr name \<Rightarrow> Inr (''Hello, '' @ py_str name @ ''!''))"

section \<open>Bidirectional streaming service: \<open>ChatServicer\<close> (\<open>server/server.py\<close>)\<close>

text \<open>The reply that the \<open>if\<close>/\<open>elif\<close> chain of \<open>chat\<close> chooses for one message.\<close>

definition chat_reply :: "string \<Rightarrow> string" where
  "chat_reply message =
     (if py_in ''hello'' (py_lower message) then ''Hello! Welcome to our service!''
      else if py_in ''how are you'' (py_lower message)
        then ''I'm doing well, thank you for asking!''
      else if py_in ''services'' (py_lower message)
        then ''We provide various streaming examples for Dubbo Python.''
      else if py_in ''thank you'' (py_lower message)
        then ''You're welcome! Anything else I can help with?''
      else if py_in ''goodbye'' (py_lower message) then ''Goodbye! Have a great day!''
      else ''I received your message: '' @ [CHR 0x27] @ message @ [CHR 0x27])"

text \<open>
  The generator \<open>chat\<close>: the values it yields, in order, and the exception that ends it
  early, if any. A message that is not a string has no \<open>lower\<close> method. The \<open>print\<close> calls
  are left out.
\<close>

fun chat_from :: "nat \<Rightarrow> RequestMessage list \<Rightarrow> string list \<times> py_error option" where
  "chat_from message_count [] =
     ([''Chat session complete. Processed '' @ show_nat message_count @ '' messages.''], None)"
| "chat_from message_count (request # rest) =
     (case py_get (params request) ''message'' (JStr []) of
        Inl e \<Rightarrow> ([], Some e)
      | Inr (JStr message) \<Rightarrow>
          (case chat_from (message_count + 1) rest of
             (ys, e) \<Rightarrow> (chat_reply message # ys, e))
      | Inr _ \<Rightarrow> ([], Some AttributeError))"

definition chat :: "RequestMessage list \<Rightarrow> string list \<times> py_error option" where
  "chat request_iterator = chat_from 0 request_iterator"

text \<open>The request that the chat client builds for one line of text (\<open>server/client.py\<close>).\<close>

definition chat_request :: "string \<Rightarrow> RequestMessage" where
  "chat_request name = \<lparr>rpc_method = JStr ''chat'', params = JObj [(''message'', JStr name)]\<rparr>"

text \<open>The keywords of the chain, in the order in which they are tried.\<close>

definition chat_keywords :: "string list" where
  "chat_keywords = [''hello'', ''how are you'', ''services'', ''thank you'', ''goodbye'']"

section \<open>Client streaming service: \<open>StreamingServicer\<close> (\<open>stream/server.py\<close>)\<close>

text \<open>
  The loop of \<open>process_names\<close>: the lines it prints and the combined string, or the
  exception that \<open>combined_names += name\<close> raises for a name that is not a string.
\<close>

fun collect_names :: "string \<Rightarrow> RequestMessage list \<Rightarrow> string list \<times> (py_error + string)" where
  "collect_names combined_names [] = ([], Inr combined_names)"
| "collect_names combined_names (request # rest) =
     (case py_get (params request) ''name'' (JStr []) of
        Inl e \<Rightarrow> ([], Inl e)
      | Inr (JStr name) \<Rightarrow>
          (case collect_names
                  ((if combined_names \<noteq> [] then combined_names @ '', '' else combined_names)
                     @ name) rest of
             (out, r) \<Rightarrow> ((''Received name: '' @ name) # out, r))
      | Inr v \<Rightarrow> ([''Received name: '' @ py_str v], Inl TypeError))"

definition process_names :: "RequestMessage list \<Rightarrow> string list \<times> (py_error + string)" where
  "process_names request_iterator =
     (case collect_names [] request_iterator of
        (out, Inl e) \<Rightarrow> (out, Inl e)
      | (out, Inr combined_names) \<Rightarrow>
          (case py_split combined_names '', '' of
             Inl e \<Rightarrow> (out, Inl e)
           | Inr parts \<Rightarrow>
               (out, Inr (''Processed '' @ show_nat (length parts) @ '' names: ''
                            @ combined_names))))"

section \<open>The libraries the services call\<close>

text \<open>
  The JSON encoders and decoders (\<open>orjson\<close>, the standard \<open>json\<close> module, the JSON functions
  of \<open>pydantic\<close>) and the scalar validators of \<open>pydantic\<close> are libraries, not code of the
  services, and are parameters of the model. An encoder returns \<open>None\<close> when the library
  raises for the document, a decoder when its input is not a JSON document it accepts.
  \<open>orjson\<close> writes and reads bytes; the standard module and \<open>pydantic\<close> write and read text,
  which the services turn into bytes with \<open>str.encode("utf-8")\<close> and back with
  \<open>bytes.decode("utf-8")\<close>. These two builtins are parameters as well: \<open>utf8_decode\<close>
  returns \<open>None\<close> when the bytes are not UTF-8. Bytes on the wire are a list of characters.
\<close>

record libs =
  orjson_dumps :: "json \<Rightarrow> string option"
  orjson_loads :: "string \<Rightarrow> json option"
  json_dumps :: "json \<Rightarrow> string option"
  json_loads :: "string \<Rightarrow> json option"
  to_json :: "json \<Rightarrow> string option"
  from_json :: "string \<Rightarrow> json option"
  validate_int :: "json \<Rightarrow> int option"
  validate_str :: "json \<Rightarrow> string option"
  validate_bool :: "json \<Rightarrow> bool option"
  utf8_encode :: "string \<Rightarrow> string"
  utf8_decode :: "string \<Rightarrow> string option"

text \<open>A well-formed document: every dictionary in it has pairwise distinct keys.\<close>

fun wf_json :: "json \<Rightarrow> bool" where
  "wf_json (JArr xs) = list_all wf_json xs"
| "wf_json (JObj kvs) = (distinct (map fst kvs) \<and> list_all wf_json (map snd kvs))"
| "wf_json _ = True"

text \<open>
  What is assumed of an encoder and a decoder that are used together: a well-formed
  document that the encoder accepts is decoded from its encoding.
\<close>

definition codec_ok :: "(json \<Rightarrow> string option) \<Rightarrow> (string \<Rightarrow> json option) \<Rightarrow> bool" where
  "codec_ok dumps loads = (\<forall>v b. wf_json v \<longrightarrow> dumps v = Some b \<longrightarrow> loads b = Some v)"

text \<open>
  What is assumed of the libraries together: each decoder reads what its own encoder
  writes, the standard module and \<open>pydantic\<close> read each other's output, a scalar
  validator accepts a value of its own type unchanged, and decoding the UTF-8 encoding of a
  text gives the text.
\<close>

definition libs_ok :: "libs \<Rightarrow> bool" where
  "libs_ok L =
     (codec_ok (orjson_dumps L) (orjson_loads L) \<and>
      codec_ok (json_dumps L) (json_loads L) \<and>
      codec_ok (to_json L) (from_json L) \<and>
      codec_ok (json_dumps L) (from_json L) \<and>
      codec_ok (to_json L) (json_loads L) \<and>
      (\<forall>i. validate_int L (JInt i) = Some i) \<and>
      (\<forall>s. validate_str L (JStr s) = Some s) \<and>
      (\<forall>b. validate_bool L (JBool b) = Some b) \<and>
      (\<forall>s. utf8_decode L (utf8_encode L s) = Some s))"

section \<open>Serialization of the messages (\<open>common.py\<close>)\<close>

definition RequestMessage_serialize :: "libs \<Rightarrow> RequestMessage \<Rightarrow> py_error + string" where
  "RequestMessage_serialize L self =
     (case orjson_dumps L (JObj [(''method'', rpc_method self), (''params'', params self)]) of
        None \<Rightarrow> Inl EncodeError
      | Some data \<Rightarrow> Inr data)"

definition RequestMessage_deserialize :: "libs \<Rightarrow> string \<Rightarrow> py_error + RequestMessage" where
  "RequestMessage_deserialize L data =
     (case orjson_loads L data of
        None \<Rightarrow> Inl DecodeError
      | Some obj \<Rightarrow>
          (case py_getitem obj ''method'' of
             Inl e \<Rightarrow> Inl e
           | Inr m \<Rightarrow>
               (case py_getitem obj ''params'' of
                  Inl e \<Rightarrow> Inl e
                | Inr p \<Rightarrow> Inr \<lparr>rpc_method = m, params = p\<rparr>)))"

definition ResponseMessage_serialize :: "libs \<Rightarrow> ResponseMessage \<Rightarrow> py_error + string" where
  "ResponseMessage_serialize L self =
     (case orjson_dumps L (JObj [(''result'', result self)]) of
        None \<Rightarrow> Inl EncodeError
      | Some data \<Rightarrow> Inr data)"

definition ResponseMessage_deserialize :: "libs \<Rightarrow> string \<Rightarrow> py_error + ResponseMessage" where
  "ResponseMessage_deserialize L data =
     (case orjson_loads L data of
        None \<Rightarrow> Inl DecodeError
      | Some obj \<Rightarrow>
          (case py_getitem obj ''result'' of
             Inl e \<Rightarrow> Inl e
           | Inr r \<Rightarrow> Inr \<lparr>result = r\<rparr>))"

text \<open>
  The serializer functions that the servers register (the same in \<open>server.py\<close>,
  \<open>stream/server.py\<close> and \<open>server/server.py\<close>) and the ones the clients register, which
  differ in the method name and the parameter key.
\<close>

definition request_deserializer :: "libs \<Rightarrow> string \<Rightarrow> py_error + RequestMessage" where
  "request_deserializer L data = RequestMessage_deserialize L data"

definition response_serializer :: "libs \<Rightarrow> string \<Rightarrow> py_error + string" where
  "response_serializer L r = ResponseMessage_serialize L \<lparr>result = JStr r\<rparr>"

definition response_deserializer :: "libs \<Rightarrow> string \<Rightarrow> py_error + json" where
  "response_deserializer L data =
     (case ResponseMessage_deserialize L data of Inl e \<Rightarrow> Inl e | Inr m \<Rightarrow> Inr (result m))"



definition names_request :: "string \<Rightarrow> RequestMessage" where
  "names_request name =
     \<lparr>rpc_method = JStr ''processNames'', params = JObj [(''name'', JStr name)]\<rparr>"

definition names_request_serializer :: "libs \<Rightarrow> string \<Rightarrow> py_error + string" where
  "names_request_serializer L name = RequestMessage_serialize L (names_request name)"

definition chat_request_serializer :: "libs \<Rightarrow> string \<Rightarrow> py_error + string" where
  "chat_request_serializer L name = RequestMessage_serialize L (chat_request name)"

section \<open>User service with manual serialization (\<open>demo/current_approach\<close>)\<close>

subsection \<open>Models (\<open>models.py\<close>)\<close>

text \<open>
  The dataclasses of \<open>current_approach\<close>. Their fields carry the prefix \<open>dc_\<close> here, to keep
  them apart from the fields of the \<open>pydantic\<close> models below. The deserializers store what
  the document holds, whatever its type, so a field is a Python value; the address is
  \<open>None\<close> or an \<open>Address\<close>.
\<close>

record dc_Address =
  dc_street :: json
  dc_city :: json
  dc_country :: json
  dc_postal_code :: json

record dc_User =
  dc_id :: json
  dc_name :: json
  dc_email :: json
  dc_active :: json
  dc_roles :: json
  dc_address :: "dc_Address option"
  dc_metadata :: json

record dc_CreateUserRequest =
  dc_request_user :: dc_User

record dc_CreateUserResponse =
  dc_response_user :: dc_User
  dc_status :: json
  dc_created_at :: json

record dc_GetUserRequest =
  dc_request_id :: json

record dc_GetUserResponse =
  dc_found_user :: "dc_User option"

subsection \<open>Serializers (\<open>serializers.py\<close>)\<close>

text \<open>A dataclass instance is always true, so \<open>not address\<close> holds for \<open>None\<close> only.\<close>

fun serialize_address :: "dc_Address option \<Rightarrow> json" where
  "serialize_address None = JNull"
| "serialize_address (Some address) =
     JObj [(''street'', dc_street address),
           (''city'', dc_city address),
           (''country'', dc_country address),
           (''postal_code'', dc_postal_code address)]"

definition deserialize_address :: "json \<Rightarrow> py_error + dc_Address option" where
  "deserialize_address data =
     (if \<not> py_truthy data then Inr None
      else
        (case py_get data ''street'' (JStr []) of
           Inl e \<Rightarrow> Inl e
         | Inr st \<Rightarrow>
        (case py_get data ''city'' (JStr []) of
           Inl e \<Rightarrow> Inl e
         | Inr ci \<Rightarrow>
        (case py_get data ''country'' (JStr []) of
           Inl e \<Rightarrow> Inl e
         | Inr co \<Rightarrow>
        (case py_get data ''postal_code'' (JStr []) of
           Inl e \<Rightarrow> Inl e
         | Inr pc \<Rightarrow>
             Inr (Some \<lparr>dc_street = st, dc_city = ci, dc_country = co,
                        dc_postal_code = pc\<rparr>))))))"

definition serialize_user :: "dc_User \<Rightarrow> json" where
  "serialize_user user =
     JObj [(''id'', dc_id user),
           (''name'', dc_name user),
           (''email'', dc_email user),
           (''active'', dc_active user),
           (''roles'', dc_roles user),
           (''address'', serialize_address (dc_address user)),
           (''metadata'', dc_metadata user)]"

definition deserialize_user :: "json \<Rightarrow> py_error + dc_User" where
  "deserialize_user data =
     (case py_get data ''id'' (JInt 0) of Inl e \<Rightarrow> Inl e | Inr i \<Rightarrow>
     (case py_get data ''name'' (JStr []) of Inl e \<Rightarrow> Inl e | Inr n \<Rightarrow>
     (case py_get data ''email'' (JStr []) of Inl e \<Rightarrow> Inl e | Inr em \<Rightarrow>
     (case py_get data ''active'' (JBool True) of Inl e \<Rightarrow> Inl e | Inr ac \<Rightarrow>
     (case py_get data ''roles'' (JArr []) of Inl e \<Rightarrow> Inl e | Inr ro \<Rightarrow>
     (case py_get data ''address'' JNull of Inl e \<Rightarrow> Inl e | Inr ad \<Rightarrow>
     (case deserialize_address ad of Inl e \<Rightarrow> Inl e | Inr address \<Rightarrow>
     (case py_get data ''metadata'' (JObj []) of Inl e \<Rightarrow> Inl e | Inr md \<Rightarrow>
        Inr \<lparr>dc_id = i, dc_name = n, dc_email = em, dc_active = ac, dc_roles = ro,
             dc_address = address, dc_metadata = md\<rparr>))))))))"

text \<open>\<open>json.dumps(data).encode("utf-8")\<close> and \<open>json.loads(data.decode("utf-8"))\<close>.\<close>

definition dumps_bytes :: "libs \<Rightarrow> json \<Rightarrow> py_error + string" where
  "dumps_bytes L data =
     (case json_dumps L data of
        None \<Rightarrow> Inl EncodeError
      | Some text \<Rightarrow> Inr (utf8_encode L text))"

definition loads_bytes :: "libs \<Rightarrow> string \<Rightarrow> py_error + json" where
  "loads_bytes L data =
     (case utf8_decode L data of
        None \<Rightarrow> Inl UnicodeDecodeError
      | Some text \<Rightarrow>
          (case json_loads L text of None \<Rightarrow> Inl DecodeError | Some v \<Rightarrow> Inr v))"


definition deserialize_create_user_request :: "libs \<Rightarrow> string \<Rightarrow> py_error + dc_CreateUserRequest" where
  "deserialize_create_user_request L data =
     (case loads_bytes L data of Inl e \<Rightarrow> Inl e | Inr parsed_data \<Rightarrow>
     (case py_get parsed_data ''user'' (JObj []) of Inl e \<Rightarrow> Inl e | Inr u \<Rightarrow>
     (case deserialize_user u of Inl e \<Rightarrow> Inl e | Inr user \<Rightarrow>
        Inr \<lparr>dc_request_user = user\<rparr>)))"

definition serialize_create_user_response :: "libs \<Rightarrow> dc_CreateUserResponse \<Rightarrow> py_error + string" where
  "serialize_create_user_response L response =
     dumps_bytes L (JObj [(''user'', serialize_user (dc_response_user response)),
                          (''status'', dc_status response),
                          (''created_at'', dc_created_at response)])"

definition deserialize_create_user_response :: "libs \<Rightarrow> string \<Rightarrow> py_error + dc_CreateUserResponse" where
  "deserialize_create_user_response L data =
     (case loads_bytes L data of Inl e \<Rightarrow> Inl e | Inr parsed_data \<Rightarrow>
     (case py_get parsed_data ''user'' (JObj []) of Inl e \<Rightarrow> Inl e | Inr u \<Rightarrow>
     (case deserialize_user u of Inl e \<Rightarrow> Inl e | Inr user \<Rightarrow>
     (case py_get parsed_data ''status'' (JStr []) of Inl e \<Rightarrow> Inl e | Inr st \<Rightarrow>
     (case py_get parsed_data ''created_at'' (JInt 0) of Inl e \<Rightarrow> Inl e | Inr ca \<Rightarrow>
        Inr \<lparr>dc_response_user = user, dc_status = st, dc_created_at = ca\<rparr>)))))"


definition deserialize_get_user_request :: "libs \<Rightarrow> string \<Rightarrow> py_error + dc_GetUserRequest" where
  "deserialize_get_user_request L data =
     (case loads_bytes L data of Inl e \<Rightarrow> Inl e | Inr parsed_data \<Rightarrow>
     (case py_get parsed_data ''id'' (JInt 0) of Inl e \<Rightarrow> Inl e | Inr i \<Rightarrow>
        Inr \<lparr>dc_request_id = i\<rparr>))"

definition serialize_get_user_response :: "libs \<Rightarrow> dc_GetUserResponse \<Rightarrow> py_error + string" where
  "serialize_get_user_response L response =
     dumps_bytes L
       (JObj [(''user'', (case dc_found_user response of
                            None \<Rightarrow> JNull
                          | Some user \<Rightarrow> serialize_user user))])"

definition deserialize_get_user_response :: "libs \<Rightarrow> string \<Rightarrow> py_error + dc_GetUserResponse" where
  "deserialize_get_user_response L data =
     (case loads_bytes L data of Inl e \<Rightarrow> Inl e | Inr parsed_data \<Rightarrow>
     (case py_get parsed_data ''user'' JNull of Inl e \<Rightarrow> Inl e | Inr user_data \<Rightarrow>
        (if py_truthy user_data
         then (case deserialize_user user_data of
                 Inl e \<Rightarrow> Inl e
               | Inr user \<Rightarrow> Inr \<lparr>dc_found_user = Some user\<rparr>)
         else Inr \<lparr>dc_found_user = None\<rparr>)))"

subsection \<open>The service (\<open>service.py\<close>)\<close>

text \<open>
  The keys of the \<open>users\<close> dictionary. The key is whatever the request has as the user's id:
  a list or a dictionary cannot be hashed, and \<open>True\<close> and \<open>1\<close> are the same key, as are
  \<open>False\<close> and \<open>0\<close>.
\<close>

datatype py_key = KNone | KInt int | KStr string

fun py_hashable :: "json \<Rightarrow> py_error + py_key" where
  "py_hashable JNull = Inr KNone"
| "py_hashable (JBool b) = Inr (KInt (if b then 1 else 0))"
| "py_hashable (JInt i) = Inr (KInt i)"
| "py_hashable (JStr s) = Inr (KStr s)"
| "py_hashable (JArr xs) = Inl TypeError"
| "py_hashable (JObj kvs) = Inl TypeError"

record dc_UserService =
  dc_users :: "py_key \<rightharpoonup> dc_User"

text \<open>
  A method of the service returns the state it leaves and its result: the response bytes,
  or the exception it raises. \<open>now\<close> is the value of \<open>int(time.time())\<close>.
\<close>

definition dc_create_user ::
  "libs \<Rightarrow> int \<Rightarrow> dc_UserService \<Rightarrow> string \<Rightarrow> dc_UserService \<times> (py_error + string)" where
  "dc_create_user L now self request_bytes =
     (case deserialize_create_user_request L request_bytes of
        Inl e \<Rightarrow> (self, Inl e)
      | Inr request \<Rightarrow>
          (let user = dc_request_user request in
           case py_hashable (dc_id user) of
             Inl e \<Rightarrow> (self, Inl e)
           | Inr k \<Rightarrow>
               (self\<lparr>dc_users := (dc_users self)(k \<mapsto> user)\<rparr>,
                serialize_create_user_response L
                  \<lparr>dc_response_user = user, dc_status = JStr ''created'',
                   dc_created_at = JInt now\<rparr>)))"

definition dc_get_user ::
  "libs \<Rightarrow> dc_UserService \<Rightarrow> string \<Rightarrow> dc_UserService \<times> (py_error + string)" where
  "dc_get_user L self request_bytes =
     (case deserialize_get_user_request L request_bytes of
        Inl e \<Rightarrow> (self, Inl e)
      | Inr request \<Rightarrow>
          (case py_hashable (dc_request_id request) of
             Inl e \<Rightarrow> (self, Inl e)
           | Inr k \<Rightarrow>
               (self, serialize_get_user_response L \<lparr>dc_found_user = dc_users self k\<rparr>)))"

section \<open>User service with \<open>pydantic\<close> models (\<open>demo/improved_approach\<close>)\<close>

subsection \<open>Models (\<open>models.py\<close>)\<close>

text \<open>
  A \<open>pydantic\<close> model validates its fields, so they have their declared types. The fields
  carry the prefix \<open>pd_\<close> here. A \<open>Dict[str, str]\<close> is an association list.
\<close>

record pd_Address =
  pd_street :: string
  pd_city :: string
  pd_country :: string
  pd_postal_code :: string

record pd_User =
  pd_id :: int
  pd_name :: string
  pd_email :: string
  pd_active :: bool
  pd_roles :: "string list"
  pd_address :: "pd_Address option"
  pd_metadata :: "(string \<times> string) list"

record pd_CreateUserRequest =
  pd_request_user :: pd_User

record pd_CreateUserResponse =
  pd_response_user :: pd_User
  pd_status :: string
  pd_created_at :: int

record pd_GetUserRequest =
  pd_request_id :: int

record pd_GetUserResponse =
  pd_found_user :: "pd_User option"

text \<open>A model instance of any of the six classes, and the classes themselves.\<close>

datatype model =
    MAddress pd_Address
  | MUser pd_User
  | MCreateUserRequest pd_CreateUserRequest
  | MCreateUserResponse pd_CreateUserResponse
  | MGetUserRequest pd_GetUserRequest
  | MGetUserResponse pd_GetUserResponse

datatype model_class =
    Address | User | CreateUserRequest | CreateUserResponse | GetUserRequest | GetUserResponse

fun class_of :: "model \<Rightarrow> model_class" where
  "class_of (MAddress a) = Address"
| "class_of (MUser u) = User"
| "class_of (MCreateUserRequest r) = CreateUserRequest"
| "class_of (MCreateUserResponse r) = CreateUserResponse"
| "class_of (MGetUserRequest r) = GetUserRequest"
| "class_of (MGetUserResponse r) = GetUserResponse"

subsection \<open>What \<open>pydantic\<close> derives from the model declarations\<close>

text \<open>\<open>model_dump\<close>: the document of a model, one key per field, in declaration order.\<close>

definition dump_address :: "pd_Address \<Rightarrow> json" where
  "dump_address a =
     JObj [(''street'', JStr (pd_street a)),
           (''city'', JStr (pd_city a)),
           (''country'', JStr (pd_country a)),
           (''postal_code'', JStr (pd_postal_code a))]"

definition dump_user :: "pd_User \<Rightarrow> json" where
  "dump_user u =
     JObj [(''id'', JInt (pd_id u)),
           (''name'', JStr (pd_name u)),
           (''email'', JStr (pd_email u)),
           (''active'', JBool (pd_active u)),
           (''roles'', JArr (map JStr (pd_roles u))),
           (''address'', (case pd_address u of None \<Rightarrow> JNull | Some a \<Rightarrow> dump_address a)),
           (''metadata'', JObj (map (\<lambda>(k, v). (k, JStr v)) (pd_metadata u)))]"

fun model_dump :: "model \<Rightarrow> json" where
  "model_dump (MAddress a) = dump_address a"
| "model_dump (MUser u) = dump_user u"
| "model_dump (MCreateUserRequest r) = JObj [(''user'', dump_user (pd_request_user r))]"
| "model_dump (MCreateUserResponse r) =
     JObj [(''user'', dump_user (pd_response_user r)),
           (''status'', JStr (pd_status r)),
           (''created_at'', JInt (pd_created_at r))]"
| "model_dump (MGetUserRequest r) = JObj [(''id'', JInt (pd_request_id r))]"
| "model_dump (MGetUserResponse r) =
     JObj [(''user'', (case pd_found_user r of None \<Rightarrow> JNull | Some u \<Rightarrow> dump_user u))]"

text \<open>
  \<open>model_validate\<close>: a model is built from a dictionary; a field without a default must be
  present, a field with one takes it when the key is absent, keys that name no field are
  ignored, and every value goes through the validator of the field's type. Any failure is
  a \<open>ValidationError\<close>, so a validator returns \<open>None\<close> for it.
\<close>

definition required :: "(json \<Rightarrow> 'a option) \<Rightarrow> (string \<times> json) list \<Rightarrow> string \<Rightarrow> 'a option" where
  "required validate kvs k = (case map_of kvs k of None \<Rightarrow> None | Some v \<Rightarrow> validate v)"

definition optional :: "(json \<Rightarrow> 'a option) \<Rightarrow> 'a \<Rightarrow> (string \<times> json) list \<Rightarrow> string \<Rightarrow> 'a option" where
  "optional validate d kvs k = (case map_of kvs k of None \<Rightarrow> Some d | Some v \<Rightarrow> validate v)"

fun validate_each :: "('a \<Rightarrow> 'b option) \<Rightarrow> 'a list \<Rightarrow> 'b list option" where
  "validate_each f [] = Some []"
| "validate_each f (x # xs) =
     (case f x of
        None \<Rightarrow> None
      | Some y \<Rightarrow> (case validate_each f xs of None \<Rightarrow> None | Some ys \<Rightarrow> Some (y # ys)))"

definition validate_str_list :: "libs \<Rightarrow> json \<Rightarrow> string list option" where
  "validate_str_list L v =
     (case v of JArr xs \<Rightarrow> validate_each (validate_str L) xs | _ \<Rightarrow> None)"

definition validate_str_dict :: "libs \<Rightarrow> json \<Rightarrow> (string \<times> string) list option" where
  "validate_str_dict L v =
     (case v of
        JObj kvs \<Rightarrow>
          validate_each (\<lambda>(k, x). (case validate_str L x of None \<Rightarrow> None | Some s \<Rightarrow> Some (k, s))) kvs
      | _ \<Rightarrow> None)"

definition validate_address :: "libs \<Rightarrow> json \<Rightarrow> pd_Address option" where
  "validate_address L v =
     (case v of
        JObj kvs \<Rightarrow>
          (case required (validate_str L) kvs ''street'' of None \<Rightarrow> None | Some st \<Rightarrow>
          (case required (validate_str L) kvs ''city'' of None \<Rightarrow> None | Some ci \<Rightarrow>
          (case required (validate_str L) kvs ''country'' of None \<Rightarrow> None | Some co \<Rightarrow>
          (case required (validate_str L) kvs ''postal_code'' of None \<Rightarrow> None | Some pc \<Rightarrow>
             Some \<lparr>pd_street = st, pd_city = ci, pd_country = co, pd_postal_code = pc\<rparr>))))
      | _ \<Rightarrow> None)"

definition validate_optional_address :: "libs \<Rightarrow> json \<Rightarrow> pd_Address option option" where
  "validate_optional_address L v =
     (case v of JNull \<Rightarrow> Some None | _ \<Rightarrow> map_option Some (validate_address L v))"

definition validate_user :: "libs \<Rightarrow> json \<Rightarrow> pd_User option" where
  "validate_user L v =
     (case v of
        JObj kvs \<Rightarrow>
          (case required (validate_int L) kvs ''id'' of None \<Rightarrow> None | Some i \<Rightarrow>
          (case required (validate_str L) kvs ''name'' of None \<Rightarrow> None | Some n \<Rightarrow>
          (case required (validate_str L) kvs ''email'' of None \<Rightarrow> None | Some em \<Rightarrow>
          (case optional (validate_bool L) True kvs ''active'' of None \<Rightarrow> None | Some ac \<Rightarrow>
          (case optional (validate_str_list L) [] kvs ''roles'' of None \<Rightarrow> None | Some ro \<Rightarrow>
          (case optional (validate_optional_address L) None kvs ''address'' of
             None \<Rightarrow> None | Some ad \<Rightarrow>
          (case optional (validate_str_dict L) [] kvs ''metadata'' of None \<Rightarrow> None | Some md \<Rightarrow>
             Some \<lparr>pd_id = i, pd_name = n, pd_email = em, pd_active = ac, pd_roles = ro,
                   pd_address = ad, pd_metadata = md\<rparr>)))))))
      | _ \<Rightarrow> None)"

definition validate_optional_user :: "libs \<Rightarrow> json \<Rightarrow> pd_User option option" where
  "validate_optional_user L v =
     (case v of JNull \<Rightarrow> Some None | _ \<Rightarrow> map_option Some (validate_user L v))"

fun validate_fields :: "libs \<Rightarrow> model_class \<Rightarrow> (string \<times> json) list \<Rightarrow> model option" where
  "validate_fields L Address kvs = map_option MAddress (validate_address L (JObj kvs))"
| "validate_fields L User kvs = map_option MUser (validate_user L (JObj kvs))"
| "validate_fields L CreateUserRequest kvs =
     (case required (validate_user L) kvs ''user'' of
        None \<Rightarrow> None
      | Some u \<Rightarrow> Some (MCreateUserRequest \<lparr>pd_request_user = u\<rparr>))"
| "validate_fields L CreateUserResponse kvs =
     (case required (validate_user L) kvs ''user'' of None \<Rightarrow> None | Some u \<Rightarrow>
     (case required (validate_str L) kvs ''status'' of None \<Rightarrow> None | Some st \<Rightarrow>
     (case required (validate_int L) kvs ''created_at'' of None \<Rightarrow> None | Some ca \<Rightarrow>
        Some (MCreateUserResponse
                \<lparr>pd_response_user = u, pd_status = st, pd_created_at = ca\<rparr>))))"
| "validate_fields L GetUserRequest kvs =
     (case required (validate_int L) kvs ''id'' of
        None \<Rightarrow> None
      | Some i \<Rightarrow> Some (MGetUserRequest \<lparr>pd_request_id = i\<rparr>))"
| "validate_fields L GetUserResponse kvs =
     (case optional (validate_optional_user L) None kvs ''user'' of
        None \<Rightarrow> None
      | Some u \<Rightarrow> Some (MGetUserResponse \<lparr>pd_found_user = u\<rparr>))"

definition model_validate :: "libs \<Rightarrow> model_class \<Rightarrow> json \<Rightarrow> py_error + model" where
  "model_validate L model_class v =
     (case v of
        JObj kvs \<Rightarrow>
          (case validate_fields L model_class kvs of
             None \<Rightarrow> Inl ValidationError
           | Some m \<Rightarrow> Inr m)
      | _ \<Rightarrow> Inl ValidationError)"

text \<open>\<open>model_dump_json\<close> and \<open>model_validate_json\<close>; invalid JSON is a \<open>ValidationError\<close> too.\<close>

definition model_dump_json :: "libs \<Rightarrow> model \<Rightarrow> py_error + string" where
  "model_dump_json L m =
     (case to_json L (model_dump m) of None \<Rightarrow> Inl EncodeError | Some b \<Rightarrow> Inr b)"

definition model_validate_json :: "libs \<Rightarrow> model_class \<Rightarrow> string \<Rightarrow> py_error + model" where
  "model_validate_json L model_class data =
     (case from_json L data of
        None \<Rightarrow> Inl ValidationError
      | Some v \<Rightarrow> model_validate L model_class v)"

subsection \<open>Serializers (\<open>serializers.py\<close>)\<close>

datatype SerializationFormat = JSON | PROTOBUF

text \<open>
  The repository has no \<open>proto\<close> package, so the import of \<open>proto.user_pb2\<close> fails and the
  module runs with its own \<open>MockProto\<close> classes: a mock message carries no data,
  \<open>SerializeToString\<close> returns a fixed byte string and \<open>FromString\<close> returns an empty
  message. \<open>json_format.ParseDict\<close> and \<open>json_format.MessageToDict\<close> raise on a mock
  message, and the code catches that and goes on with an empty message and an empty
  dictionary.
\<close>

datatype mock_proto = MockProto model_class

definition PROTOBUF_MAPPING :: "model_class \<rightharpoonup> model_class" where
  "PROTOBUF_MAPPING =
     [Address \<mapsto> Address, User \<mapsto> User, CreateUserRequest \<mapsto> CreateUserRequest,
      CreateUserResponse \<mapsto> CreateUserResponse, GetUserRequest \<mapsto> GetUserRequest,
      GetUserResponse \<mapsto> GetUserResponse]"

definition get_protobuf_class :: "model_class \<Rightarrow> py_error + model_class" where
  "get_protobuf_class model_class =
     (case PROTOBUF_MAPPING model_class of None \<Rightarrow> Inl ValueError | Some c \<Rightarrow> Inr c)"

definition SerializeToString :: "mock_proto \<Rightarrow> string" where
  "SerializeToString proto_msg = ''mock_serialized_protobuf''"

definition FromString :: "model_class \<Rightarrow> string \<Rightarrow> mock_proto" where
  "FromString proto_class data = MockProto proto_class"

definition model_to_protobuf :: "model \<Rightarrow> py_error + mock_proto" where
  "model_to_protobuf m =
     (case get_protobuf_class (class_of m) of
        Inl e \<Rightarrow> Inl e
      | Inr proto_class \<Rightarrow> Inr (MockProto proto_class))"

definition protobuf_to_model :: "libs \<Rightarrow> mock_proto \<Rightarrow> model_class \<Rightarrow> py_error + model" where
  "protobuf_to_model L proto_msg model_class = model_validate L model_class (JObj [])"

definition serialize :: "libs \<Rightarrow> model \<Rightarrow> SerializationFormat \<Rightarrow> py_error + string" where
  "serialize L m format =
     (if format = JSON then
        (case model_dump_json L m of
           Inl e \<Rightarrow> Inl e
         | Inr text \<Rightarrow> Inr (utf8_encode L text))
      else (case model_to_protobuf m of
              Inl e \<Rightarrow> Inl e
            | Inr proto_msg \<Rightarrow> Inr (SerializeToString proto_msg)))"

definition deserialize ::
  "libs \<Rightarrow> string \<Rightarrow> model_class \<Rightarrow> SerializationFormat \<Rightarrow> py_error + model" where
  "deserialize L data model_class format =
     (if format = JSON then
        (case utf8_decode L data of
           None \<Rightarrow> Inl UnicodeDecodeError
         | Some text \<Rightarrow> model_validate_json L model_class text)
      else (case get_protobuf_class model_class of
              Inl e \<Rightarrow> Inl e
            | Inr proto_class \<Rightarrow>
                protobuf_to_model L (FromString proto_class data) model_class))"

definition serialize_model :: "libs \<Rightarrow> model \<Rightarrow> SerializationFormat \<Rightarrow> py_error + string" where
  "serialize_model L m format = serialize L m format"

definition deserialize_model ::
  "libs \<Rightarrow> string \<Rightarrow> model_class \<Rightarrow> SerializationFormat \<Rightarrow> py_error + model" where
  "deserialize_model L data model_class format = deserialize L data model_class format"

subsection \<open>The service (\<open>service.py\<close>)\<close>

record pd_UserService =
  pd_users :: "int \<rightharpoonup> pd_User"
  serialization_format :: SerializationFormat

definition pd_create_user ::
  "libs \<Rightarrow> int \<Rightarrow> pd_UserService \<Rightarrow> string \<Rightarrow> pd_UserService \<times> (py_error + string)" where
  "pd_create_user L now self request_bytes =
     (case deserialize_model L request_bytes CreateUserRequest (serialization_format self) of
        Inr (MCreateUserRequest request) \<Rightarrow>
          (let user = pd_request_user request in
           (self\<lparr>pd_users := (pd_users self)(pd_id user \<mapsto> user)\<rparr>,
            serialize_model L
              (MCreateUserResponse
                 \<lparr>pd_response_user = user, pd_status = ''created'', pd_created_at = now\<rparr>)
              (serialization_format self)))
      | Inr _ \<Rightarrow> (self, Inl AttributeError)
      | Inl e \<Rightarrow> (self, Inl e))"

definition pd_get_user ::
  "libs \<Rightarrow> pd_UserService \<Rightarrow> string \<Rightarrow> pd_UserService \<times> (py_error + string)" where
  "pd_get_user L self request_bytes =
     (case deserialize_model L request_bytes GetUserRequest (serialization_format self) of
        Inr (MGetUserRequest request) \<Rightarrow>
          (self,
           serialize_model L
             (MGetUserResponse \<lparr>pd_found_user = pd_users self (pd_request_id request)\<rparr>)
             (serialization_format self))
      | Inr _ \<Rightarrow> (self, Inl AttributeError)
      | Inl e \<Rightarrow> (self, Inl e))"

subsection \<open>Corresponding values of the two approaches\<close>







text \<open>The user that \<open>deserialize_user\<close> builds from an empty dictionary.\<close>

definition default_user :: dc_User where
  "default_user =
     \<lparr>dc_id = JInt 0, dc_name = JStr [], dc_email = JStr [], dc_active = JBool True,
      dc_roles = JArr [], dc_address = None, dc_metadata = JObj []\<rparr>"


subsection \<open>What the deserializers build from a dictionary\<close>

text \<open>
  The value that \<open>d.get(k, default)\<close> returns for a dictionary with the entries \<open>kvs\<close>, and
  the address and the user that have, field by field, the entry of the dictionary when the
  key is present and the default of the field's \<open>get\<close> call when it is absent. These
  functions state what the deserializers of \<open>current_approach\<close> are expected to return.
\<close>

definition field_or :: "(string \<times> json) list \<Rightarrow> string \<Rightarrow> json \<Rightarrow> json" where
  "field_or kvs k d = (case map_of kvs k of None \<Rightarrow> d | Some v \<Rightarrow> v)"

definition filled_address :: "(string \<times> json) list \<Rightarrow> dc_Address" where
  "filled_address kvs =
     \<lparr>dc_street = field_or kvs ''street'' (JStr []),
      dc_city = field_or kvs ''city'' (JStr []),
      dc_country = field_or kvs ''country'' (JStr []),
      dc_postal_code = field_or kvs ''postal_code'' (JStr [])\<rparr>"

definition filled_user :: "(string \<times> json) list \<Rightarrow> dc_Address option \<Rightarrow> dc_User" where
  "filled_user kvs address =
     \<lparr>dc_id = field_or kvs ''id'' (JInt 0),
      dc_name = field_or kvs ''name'' (JStr []),
      dc_email = field_or kvs ''email'' (JStr []),
      dc_active = field_or kvs ''active'' (JBool True),
      dc_roles = field_or kvs ''roles'' (JArr []),
      dc_address = address,
      dc_metadata = field_or kvs ''metadata'' (JObj [])\<rparr>"

text \<open>
  The fields that a \<open>pydantic\<close> model class declares without a default (\<open>models.py\<close>): a
  document that lacks one of them is not valid for the class.
\<close>

fun required_keys :: "model_class \<Rightarrow> string list" where
  "required_keys Address = [''street'', ''city'', ''country'', ''postal_code'']"
| "required_keys User = [''id'', ''name'', ''email'']"
| "required_keys CreateUserRequest = [''user'']"
| "required_keys CreateUserResponse = [''user'', ''status'', ''created_at'']"
| "required_keys GetUserRequest = [''id'']"
| "required_keys GetUserResponse = []"

section \<open>A reference implementation of the libraries\<close>

text \<open>
  A JSON encoder and decoder for the documents of the model, written out so that the
  services can be run on concrete bytes and so that the assumptions on the libraries are
  known to be satisfiable. The text is ASCII: the encoder escapes every character outside
  the printable ASCII range, and the decoder accepts ASCII text. Numbers with a fraction
  or an exponent are not read, since the model has no floating-point values.
\<close>

subsection \<open>Tokens\<close>

datatype token =
    TLBrace | TRBrace | TLBrack | TRBrack | TComma | TColon
  | TStr string | TInt int | TTrue | TFalse | TNull

fun elems :: "token list list \<Rightarrow> token list" where
  "elems [] = []"
| "elems [x] = x"
| "elems (x # y # r) = x @ TComma # elems (y # r)"

fun tokens_of :: "json \<Rightarrow> token list" where
  "tokens_of JNull = [TNull]"
| "tokens_of (JBool b) = [if b then TTrue else TFalse]"
| "tokens_of (JInt i) = [TInt i]"
| "tokens_of (JStr s) = [TStr s]"
| "tokens_of (JArr xs) = TLBrack # elems (map tokens_of xs) @ [TRBrack]"
| "tokens_of (JObj kvs) =
     TLBrace #
       elems (map (\<lambda>(k, ts). TStr k # TColon # ts)
                (zip (map fst kvs) (map tokens_of (map snd kvs))))
     @ [TRBrace]"

subsection \<open>From tokens to text\<close>

definition escape_char :: "char \<Rightarrow> string" where
  "escape_char c =
     (if c = CHR 0x22 then [CHR 0x5C, CHR 0x22]
      else if c = CHR 0x5C then [CHR 0x5C, CHR 0x5C]
      else if c = CHR 0x08 then [CHR 0x5C, CHR ''b'']
      else if c = CHR 0x09 then [CHR 0x5C, CHR ''t'']
      else if c = CHR 0x0A then [CHR 0x5C, CHR ''n'']
      else if c = CHR 0x0C then [CHR 0x5C, CHR ''f'']
      else if c = CHR 0x0D then [CHR 0x5C, CHR ''r'']
      else if 32 \<le> (of_char c :: nat) \<and> (of_char c :: nat) < 127 then [c]
      else [CHR 0x5C, CHR ''u'', CHR ''0'', CHR ''0'',
            hex_char (of_char c div 16), hex_char (of_char c mod 16)])"

definition quote :: "string \<Rightarrow> string" where
  "quote s = CHR 0x22 # concat (map escape_char s) @ [CHR 0x22]"

text \<open>
  With \<open>spaced\<close> the separators are \<open>", "\<close> and \<open>": "\<close>, the default of \<open>json.dumps\<close>;
  without it the text is compact, as \<open>orjson\<close> and \<open>pydantic\<close> write it.
\<close>

fun print_token :: "bool \<Rightarrow> token \<Rightarrow> string" where
  "print_token spaced TLBrace = ''{''"
| "print_token spaced TRBrace = ''}''"
| "print_token spaced TLBrack = ''[''"
| "print_token spaced TRBrack = '']''"
| "print_token spaced TComma = (if spaced then '', '' else '','')"
| "print_token spaced TColon = (if spaced then '': '' else '':'')"
| "print_token spaced (TStr s) = quote s"
| "print_token spaced (TInt i) = show_int i"
| "print_token spaced TTrue = ''true''"
| "print_token spaced TFalse = ''false''"
| "print_token spaced TNull = ''null''"

definition render :: "bool \<Rightarrow> token list \<Rightarrow> string" where
  "render spaced ts = concat (map (print_token spaced) ts)"

definition encode_json :: "bool \<Rightarrow> json \<Rightarrow> string option" where
  "encode_json spaced v = Some (render spaced (tokens_of v))"

subsection \<open>From text to tokens\<close>

definition is_digit :: "char \<Rightarrow> bool" where
  "is_digit c = (48 \<le> (of_char c :: nat) \<and> (of_char c :: nat) \<le> 57)"

definition is_space :: "char \<Rightarrow> bool" where
  "is_space c = (c = CHR 0x20 \<or> c = CHR 0x09 \<or> c = CHR 0x0A \<or> c = CHR 0x0D)"

definition hex_val :: "char \<Rightarrow> nat option" where
  "hex_val c =
     (let n = (of_char c :: nat) in
      if 48 \<le> n \<and> n \<le> 57 then Some (n - 48)
      else if 97 \<le> n \<and> n \<le> 102 then Some (n - 87)
      else if 65 \<le> n \<and> n \<le> 70 then Some (n - 55)
      else None)"

definition hex4 :: "char \<Rightarrow> char \<Rightarrow> char \<Rightarrow> char \<Rightarrow> nat option" where
  "hex4 a b c d =
     (case (hex_val a, hex_val b, hex_val c, hex_val d) of
        (Some w, Some x, Some y, Some z) \<Rightarrow> Some (4096 * w + 256 * x + 16 * y + z)
      | _ \<Rightarrow> None)"

text \<open>The character that a one-letter escape stands for.\<close>

definition short_escape :: "char \<Rightarrow> char option" where
  "short_escape e =
     (if e = CHR 0x22 then Some (CHR 0x22)
      else if e = CHR 0x5C then Some (CHR 0x5C)
      else if e = CHR ''/'' then Some (CHR ''/'')
      else if e = CHR ''b'' then Some (CHR 0x08)
      else if e = CHR ''t'' then Some (CHR 0x09)
      else if e = CHR ''n'' then Some (CHR 0x0A)
      else if e = CHR ''f'' then Some (CHR 0x0C)
      else if e = CHR ''r'' then Some (CHR 0x0D)
      else None)"

text \<open>
  The body of a string literal, after the opening quote: the decoded string so far, then
  the input. The result is the string and the input after the closing quote.
\<close>

fun lex_string :: "string \<Rightarrow> string \<Rightarrow> (string \<times> string) option" where
  "lex_string acc [] = None"
| "lex_string acc [c] = (if c = CHR 0x22 then Some (acc, []) else None)"
| "lex_string acc (c # e # r) =
     (if c = CHR 0x22 then Some (acc, e # r)
      else if c = CHR 0x5C then
        (if e = CHR ''u'' then
           (case r of
              a # b # x # y # r' \<Rightarrow>
                (case hex4 a b x y of
                   None \<Rightarrow> None
                 | Some n \<Rightarrow> if n < 256 then lex_string (acc @ [char_of n]) r' else None)
            | _ \<Rightarrow> None)
         else (case short_escape e of
                 None \<Rightarrow> None
               | Some x \<Rightarrow> lex_string (acc @ [x]) r))
      else if 32 \<le> (of_char c :: nat) \<and> (of_char c :: nat) < 128
        then lex_string (acc @ [c]) (e # r)
      else None)"

definition digits_val :: "string \<Rightarrow> nat" where
  "digits_val ds = foldl (\<lambda>n c. 10 * n + (of_char c - 48)) 0 ds"

text \<open>
  An integer literal: an optional minus sign and digits without a leading zero. A literal
  that goes on with a fraction or an exponent is not read.
\<close>

definition lex_digits :: "string \<Rightarrow> (nat \<times> string) option" where
  "lex_digits s =
     (let ds = takeWhile is_digit s; r = dropWhile is_digit s in
      if ds = [] \<or> (length ds > 1 \<and> hd ds = CHR ''0'') then None
      else if r \<noteq> [] \<and> hd r \<in> {CHR ''.'', CHR ''e'', CHR ''E''} then None
      else Some (digits_val ds, r))"

definition lex_number :: "string \<Rightarrow> (int \<times> string) option" where
  "lex_number s =
     (case s of
        [] \<Rightarrow> None
      | c # cs \<Rightarrow>
          if c = CHR ''-'' then map_option (\<lambda>(n, r). (- int n, r)) (lex_digits cs)
          else map_option (\<lambda>(n, r). (int n, r)) (lex_digits s))"

lemma lex_string_shorter: "lex_string acc s = Some (out, rest) \<Longrightarrow> length rest < length s"
proof (induction acc s rule: lex_string.induct)
  case (1 acc)
  then show ?case by simp
next
  case (2 acc c)
  then show ?case by (simp split: if_splits)
next
  case (3 acc c e r)
  show ?case
  proof (cases "c = CHR 0x22")
    case True
    with 3(4) show ?thesis by simp
  next
    case nq: False
    show ?thesis
    proof (cases "c = CHR 0x5C")
      case bs: True
      show ?thesis
      proof (cases "e = CHR ''u''")
        case u: True
        from 3(4) nq bs u obtain a b x y r' n where
          r: "r = a # b # x # y # r'" and h: "hex4 a b x y = Some n" and n: "n < 256"
          and l: "lex_string (acc @ [char_of n]) r' = Some (out, rest)" 
          by (auto split: list.splits option.splits if_splits)
        from 3(1) [OF nq bs u r refl refl refl h n l] show ?thesis by (simp add: r)
      next
        case nu: False
        from 3(4) nq bs nu obtain x where
          s: "short_escape e = Some x" and l: "lex_string (acc @ [x]) r = Some (out, rest)"
          by (auto split: option.splits)
        from 3(2) [OF nq bs nu s l] show ?thesis by simp
      qed
    next
      case nb: False
      from 3(4) nq nb have p: "32 \<le> (of_char c :: nat) \<and> (of_char c :: nat) < 128"
        and l: "lex_string (acc @ [c]) (e # r) = Some (out, rest)"
        by (auto split: if_splits)
      from 3(3) [OF nq nb p l] show ?thesis by simp
    qed
  qed
qed

lemma lex_digits_shorter: "lex_digits s = Some (n, rest) \<Longrightarrow> length rest < length s"
proof -
  assume a: "lex_digits s = Some (n, rest)"
  then have r: "rest = dropWhile is_digit s" and ne: "takeWhile is_digit s \<noteq> []"
    by (auto simp: lex_digits_def Let_def split: if_splits)
  have "length (takeWhile is_digit s) + length (dropWhile is_digit s) = length s"
    by (metis length_append takeWhile_dropWhile_id)
  moreover from ne have "0 < length (takeWhile is_digit s)" by simp
  ultimately show ?thesis unfolding r by linarith
qed

lemma lex_number_shorter: "lex_number s = Some (i, rest) \<Longrightarrow> length rest < length s"
proof (cases s)
  case Nil
  assume "lex_number s = Some (i, rest)"
  with Nil show ?thesis by (simp add: lex_number_def)
next
  case (Cons c cs)
  assume a: "lex_number s = Some (i, rest)"
  show ?thesis
  proof (cases "c = CHR ''-''")
    case True
    with a Cons obtain n where "lex_digits cs = Some (n, rest)"
      by (auto simp: lex_number_def)
    then have "length rest < length cs" by (rule lex_digits_shorter)
    with Cons show ?thesis by simp
  next
    case False
    with a Cons obtain n where "lex_digits s = Some (n, rest)"
      by (auto simp: lex_number_def)
    then show ?thesis by (rule lex_digits_shorter)
  qed
qed

lemma lex_string_rest: "lex_string acc s = Some p \<Longrightarrow> (out, rest) = p \<Longrightarrow> length rest < Suc (length s)"
  using lex_string_shorter [of acc s out rest] by simp

lemma lex_number_rest:
  "lex_number (c # cs) = Some p \<Longrightarrow> (i, rest) = p \<Longrightarrow> length rest < Suc (length cs)"
  using lex_number_shorter [of "c # cs" i rest] by simp

function lex :: "string \<Rightarrow> token list option" where
  "lex [] = Some []"
| "lex (c # cs) =
     (if is_space c then lex cs
      else if c = CHR ''{'' then map_option (Cons TLBrace) (lex cs)
      else if c = CHR ''}'' then map_option (Cons TRBrace) (lex cs)
      else if c = CHR ''['' then map_option (Cons TLBrack) (lex cs)
      else if c = CHR '']'' then map_option (Cons TRBrack) (lex cs)
      else if c = CHR '','' then map_option (Cons TComma) (lex cs)
      else if c = CHR '':'' then map_option (Cons TColon) (lex cs)
      else if c = CHR 0x22 then
        (case lex_string [] cs of
           None \<Rightarrow> None
         | Some (s, r) \<Rightarrow> map_option (Cons (TStr s)) (lex r))
      else if c = CHR ''-'' \<or> is_digit c then
        (case lex_number (c # cs) of
           None \<Rightarrow> None
         | Some (i, r) \<Rightarrow> map_option (Cons (TInt i)) (lex r))
      else if c = CHR ''t'' then
        (case cs of
           x # y # z # r \<Rightarrow>
             if [x, y, z] = ''rue'' then map_option (Cons TTrue) (lex r) else None
         | _ \<Rightarrow> None)
      else if c = CHR ''f'' then
        (case cs of
           w # x # y # z # r \<Rightarrow>
             if [w, x, y, z] = ''alse'' then map_option (Cons TFalse) (lex r) else None
         | _ \<Rightarrow> None)
      else if c = CHR ''n'' then
        (case cs of
           x # y # z # r \<Rightarrow>
             if [x, y, z] = ''ull'' then map_option (Cons TNull) (lex r) else None
         | _ \<Rightarrow> None)
      else None)"
  by pat_completeness auto
termination
proof (relation "measure length", goal_cases)
  case 1
  show ?case by simp
qed (simp_all, (erule (1) lex_string_rest lex_number_rest)+)

subsection \<open>From tokens to a document\<close>

text \<open>
  Setting a key as a Python dictionary does: a key that is present keeps its place and
  takes the new value, a new key goes last.
\<close>

fun dict_set :: "string \<Rightarrow> json \<Rightarrow> (string \<times> json) list \<Rightarrow> (string \<times> json) list" where
  "dict_set k v [] = [(k, v)]"
| "dict_set k v ((k', v') # r) = (if k = k' then (k, v) # r else (k', v') # dict_set k v r)"

text \<open>
  The decoder keeps a stack of the containers that are open: a list with the elements read
  so far, a dictionary between two entries, or a dictionary whose next value belongs to
  the key that was just read.
\<close>

datatype frame =
    FArr "json list"
  | FObj "(string \<times> json) list"
  | FKey "(string \<times> json) list" string

datatype phase = PValue | PFirst | PKey0 | PKey | PColon | PNext

datatype pstate = Expect phase "frame list" | Finished json

fun reduce :: "json \<Rightarrow> frame list \<Rightarrow> pstate option" where
  "reduce v [] = Some (Finished v)"
| "reduce v (FArr xs # st) = Some (Expect PNext (FArr (xs @ [v]) # st))"
| "reduce v (FKey kvs k # st) = Some (Expect PNext (FObj (dict_set k v kvs) # st))"
| "reduce v (FObj kvs # st) = None"

fun close_arr :: "frame list \<Rightarrow> pstate option" where
  "close_arr (FArr xs # st) = reduce (JArr xs) st"
| "close_arr _ = None"

fun close_obj :: "frame list \<Rightarrow> pstate option" where
  "close_obj (FObj kvs # st) = reduce (JObj kvs) st"
| "close_obj _ = None"

fun open_key :: "string \<Rightarrow> frame list \<Rightarrow> pstate option" where
  "open_key k (FObj kvs # st) = Some (Expect PColon (FKey kvs k # st))"
| "open_key k _ = None"

fun start_value :: "token \<Rightarrow> frame list \<Rightarrow> pstate option" where
  "start_value TNull st = reduce JNull st"
| "start_value TTrue st = reduce (JBool True) st"
| "start_value TFalse st = reduce (JBool False) st"
| "start_value (TInt i) st = reduce (JInt i) st"
| "start_value (TStr s) st = reduce (JStr s) st"
| "start_value TLBrack st = Some (Expect PFirst (FArr [] # st))"
| "start_value TLBrace st = Some (Expect PKey0 (FObj [] # st))"
| "start_value _ st = None"

fun after_value :: "token \<Rightarrow> frame list \<Rightarrow> pstate option" where
  "after_value TComma (FArr xs # st) = Some (Expect PValue (FArr xs # st))"
| "after_value TComma (FObj kvs # st) = Some (Expect PKey (FObj kvs # st))"
| "after_value TRBrack st = close_arr st"
| "after_value TRBrace st = close_obj st"
| "after_value _ st = None"

fun step :: "pstate \<Rightarrow> token \<Rightarrow> pstate option" where
  "step (Finished v) t = None"
| "step (Expect PValue st) t = start_value t st"
| "step (Expect PFirst st) t = (if t = TRBrack then close_arr st else start_value t st)"
| "step (Expect PKey0 st) t =
     (case t of TStr k \<Rightarrow> open_key k st | TRBrace \<Rightarrow> close_obj st | _ \<Rightarrow> None)"
| "step (Expect PKey st) t = (case t of TStr k \<Rightarrow> open_key k st | _ \<Rightarrow> None)"
| "step (Expect PColon st) t = (if t = TColon then Some (Expect PValue st) else None)"
| "step (Expect PNext st) t = after_value t st"

fun run :: "pstate \<Rightarrow> token list \<Rightarrow> pstate option" where
  "run s [] = Some s"
| "run s (t # ts) = (case step s t of None \<Rightarrow> None | Some s' \<Rightarrow> run s' ts)"

definition decode_json :: "string \<Rightarrow> json option" where
  "decode_json data =
     (case lex data of
        None \<Rightarrow> None
      | Some ts \<Rightarrow>
          (case run (Expect PValue []) ts of
             Some (Finished v) \<Rightarrow> Some v
           | _ \<Rightarrow> None))"

subsection \<open>Scalar validators, UTF-8 and the library record\<close>

text \<open>The validators of the reference implementation accept a value of the field's own type.\<close>

fun strict_int :: "json \<Rightarrow> int option" where
  "strict_int (JInt i) = Some i"
| "strict_int _ = None"

fun strict_str :: "json \<Rightarrow> string option" where
  "strict_str (JStr s) = Some s"
| "strict_str _ = None"

fun strict_bool :: "json \<Rightarrow> bool option" where
  "strict_bool (JBool b) = Some b"
| "strict_bool _ = None"

text \<open>
  UTF-8 for the code points of the model: a code point below 128 is one byte, one from 128
  to 255 is two bytes. The decoder reads these sequences and rejects every other byte.
\<close>

definition encode_code_point :: "char \<Rightarrow> string" where
  "encode_code_point c =
     (if (of_char c :: nat) < 128 then [c]
      else [char_of (192 + (of_char c :: nat) div 64), char_of (128 + (of_char c :: nat) mod 64)])"

definition encode_utf8 :: "string \<Rightarrow> string" where
  "encode_utf8 s = concat (map encode_code_point s)"

fun decode_utf8 :: "string \<Rightarrow> string option" where
  "decode_utf8 [] = Some []"
| "decode_utf8 [b] = (if (of_char b :: nat) < 128 then Some [b] else None)"
| "decode_utf8 (b # c # r) =
     (if (of_char b :: nat) < 128 then map_option (Cons b) (decode_utf8 (c # r))
      else if ((of_char b :: nat) = 194 \<or> (of_char b :: nat) = 195) \<and>
              128 \<le> (of_char c :: nat) \<and> (of_char c :: nat) < 192
        then map_option
               (Cons (char_of (((of_char b :: nat) - 192) * 64 + ((of_char c :: nat) - 128))))
               (decode_utf8 r)
      else None)"

definition reference_libs :: libs where
  "reference_libs =
     \<lparr>orjson_dumps = encode_json False, orjson_loads = decode_json,
      json_dumps = encode_json True, json_loads = decode_json,
      to_json = encode_json False, from_json = decode_json,
      validate_int = strict_int, validate_str = strict_str, validate_bool = strict_bool,
      utf8_encode = encode_utf8, utf8_decode = decode_utf8\<rparr>"

subsection \<open>Notions for the correctness of the reference implementation\<close>

text \<open>
  \<open>ok_next s\<close>: the text \<open>s\<close> can follow an integer literal, that is, it does not go on with
  a digit, a fraction or an exponent. \<open>lexes\<close>: the rendering of a token list is read back
  as that list. \<open>parses\<close>: the decoder reads a token list as one value.
\<close>

definition ok_next :: "string \<Rightarrow> bool" where
  "ok_next s = (s = [] \<or> (\<not> is_digit (hd s) \<and> hd s \<notin> {CHR ''.'', CHR ''e'', CHR ''E''}))"

definition punct :: "token \<Rightarrow> bool" where
  "punct t = (case t of TInt i \<Rightarrow> False | _ \<Rightarrow> True)"

definition lexes :: "bool \<Rightarrow> token list \<Rightarrow> bool" where
  "lexes sp ts = (\<forall>s. ok_next s \<longrightarrow> lex (render sp ts @ s) = map_option (\<lambda>r. ts @ r) (lex s))"

definition closer :: "token \<Rightarrow> bool" where
  "closer t = (t = TComma \<or> t = TRBrack \<or> t = TRBrace)"

definition parses :: "token list \<Rightarrow> json \<Rightarrow> bool" where
  "parses ts v =
     (\<forall>ph st rest. ph = PValue \<or> ph = PFirst \<longrightarrow>
        run (Expect ph st) (ts @ rest) =
          (case reduce v st of None \<Rightarrow> None | Some s' \<Rightarrow> run s' rest))"

section \<open>The call runtime\<close>

text \<open>
  The services are registered with, and called through, the \<open>dubbo\<close> runtime, whose code is
  not in the repository. What follows is that runtime as the specification describes it
  (sections 4.1, 4.3 and 4.4), for one call.
\<close>

text \<open>
  Modelled from the spec: the inbound direction of a call as the server sees it, a
  sequence of byte frames that the client may end by closing its write side.
\<close>

datatype inbound = Frame string | CloseWrite

text \<open>
  Modelled from the spec: the errors of a call. \<open>ProtocolViolation\<close> is the error of the
  dispatcher; a failure of a codec or of the user callback is attached to the call.
\<close>

datatype call_error = ProtocolViolation | Failure py_error

text \<open>
  Modelled from the spec: the outbound direction of the \<open>Stream\<close> of a call, with the frames
  written so far, the closed flag and the terminal-error slot.
\<close>

record call =
  outbound :: "string list"
  outbound_closed :: bool
  terminal_error :: "call_error option"

text \<open>
  Modelled from the spec: the outcomes of \<open>read\<close>. With a terminal error recorded a read
  fails with \<open>StreamAborted\<close>.
\<close>

datatype read_outcome = Message string | EndOfStream | Timeout | StreamAborted

text \<open>
  Modelled from the spec: what a reader of the outbound direction gets from its successive
  reads: the frames in the order in which they were written, then end-of-stream once the
  direction is closed, and a timeout while it is open and empty.
\<close>

definition reads :: "call \<Rightarrow> read_outcome list" where
  "reads c =
     (if terminal_error c \<noteq> None then [StreamAborted]
      else map Message (outbound c) @ (if outbound_closed c then [EndOfStream] else [Timeout]))"

text \<open>
  Modelled from the spec: a call whose dispatcher is still waiting for input has written
  nothing and is open.
\<close>

definition waiting :: call where
  "waiting = \<lparr>outbound = [], outbound_closed = False, terminal_error = None\<rparr>"

text \<open>Modelled from the spec: \<open>abort\<close> records the terminal error and closes the direction.\<close>

definition aborted :: "call_error \<Rightarrow> call" where
  "aborted e = \<lparr>outbound = [], outbound_closed = True, terminal_error = Some e\<rparr>"

text \<open>
  Modelled from the spec: a call that completes with one response has written it and closed
  the direction.
\<close>

definition completed :: "string \<Rightarrow> call" where
  "completed frame = \<lparr>outbound = [frame], outbound_closed = True, terminal_error = None\<rparr>"

text \<open>
  Modelled from the spec: the end of a call with one response. The callback's result is
  encoded with the response codec and written, and the outbound direction is closed; a
  failure of the callback or of the codec becomes the terminal error.
\<close>

definition respond :: "('resp \<Rightarrow> py_error + string) \<Rightarrow> py_error + 'resp \<Rightarrow> call" where
  "respond encode r =
     (case r of
        Inl e \<Rightarrow> aborted (Failure e)
      | Inr resp \<Rightarrow> (case encode resp of Inl e \<Rightarrow> aborted (Failure e) | Inr b \<Rightarrow> completed b))"


text \<open>
  Modelled from the spec: the inbound side of a streaming call. Each frame is decoded with
  the request codec as it arrives, up to the close of the client's write side; the result
  is \<open>None\<close> while the close has not arrived, and the first decoding failure otherwise
  ends the call.
\<close>

fun decode_until_close ::
  "(string \<Rightarrow> py_error + 'req) \<Rightarrow> inbound list \<Rightarrow> (py_error + 'req list) option" where
  "decode_until_close decode [] = None"
| "decode_until_close decode (CloseWrite # evs) = Some (Inr [])"
| "decode_until_close decode (Frame f # evs) =
     (case decode f of
        Inl e \<Rightarrow> Some (Inl e)
      | Inr request \<Rightarrow>
          (case decode_until_close decode evs of
             None \<Rightarrow> None
           | Some (Inl e) \<Rightarrow> Some (Inl e)
           | Some (Inr requests) \<Rightarrow> Some (Inr (request # requests))))"

text \<open>
  Modelled from the spec: the dispatcher for a \<open>ClientStreaming\<close> method. When the client
  has closed its write side the callback has the decoded requests in arrival order, and its
  single response is written before the outbound direction is closed.
\<close>

definition dispatch_client_stream ::
  "(string \<Rightarrow> py_error + 'req) \<Rightarrow> ('req list \<Rightarrow> py_error + 'resp) \<Rightarrow> ('resp \<Rightarrow> py_error + string)
     \<Rightarrow> inbound list \<Rightarrow> call" where
  "dispatch_client_stream decode callback encode evs =
     (case decode_until_close decode evs of
        None \<Rightarrow> waiting
      | Some (Inl e) \<Rightarrow> aborted (Failure e)
      | Some (Inr requests) \<Rightarrow> respond encode (callback requests))"

text \<open>
  Modelled from the spec: the client side of a call (section 4.4). The requests are
  serialized and written in order, then the write side is closed; a request that cannot be
  serialized ends the writing.
\<close>

fun client_frames :: "('a \<Rightarrow> py_error + string) \<Rightarrow> 'a list \<Rightarrow> inbound list" where
  "client_frames serializer [] = [CloseWrite]"
| "client_frames serializer (x # xs) =
     (case serializer x of Inl e \<Rightarrow> [] | Inr b \<Rightarrow> Frame b # client_frames serializer xs)"

subsection \<open>The example services on the runtime\<close>

text \<open>
  \<open>StreamingServiceStub.process_names\<close> (\<open>stream/client.py\<close>) sends the names through the
  client-streaming method that \<open>build_service_handler\<close> (\<open>stream/server.py\<close>) registers with
  \<open>process_names\<close> as its callback, and reads the single response. The call is the modelled
  dispatcher run with the functions that the two files register.
\<close>

definition names_call :: "libs \<Rightarrow> string list \<Rightarrow> call" where
  "names_call L names =
     dispatch_client_stream (request_deserializer L) (\<lambda>requests. snd (process_names requests))
       (response_serializer L) (client_frames (names_request_serializer L) names)"


text \<open>
  The result of a stub method that reads one response (\<open>stream.read()\<close> in
  \<open>stream/client.py\<close>): the first message of the call, through \<open>response_deserializer\<close>.
\<close>

definition read_response :: "libs \<Rightarrow> call \<Rightarrow> (py_error + json) option" where
  "read_response L c =
     (case reads c of Message b # rest \<Rightarrow> Some (response_deserializer L b) | _ \<Rightarrow> None)"

section \<open>The reference implementation reads what it writes\<close>

lemma of_char_digit_char: "d < 10 \<Longrightarrow> (of_char (digit_char d) :: nat) = 48 + d"
  by (simp add: digit_char_def)

lemma is_digit_digit_char: "d < 10 \<Longrightarrow> is_digit (digit_char d)"
  by (simp add: is_digit_def of_char_digit_char)

lemma show_nat_digits: "\<forall>c \<in> set (show_nat n). is_digit c"
proof (induction n rule: show_nat.induct)
  case (1 n)
  show ?case
  proof (cases "n < 10")
    case True
    then show ?thesis by (subst show_nat.simps) (simp add: is_digit_digit_char)
  next
    case False
    with 1 show ?thesis by (subst show_nat.simps) (simp add: is_digit_digit_char)
  qed
qed

lemma show_nat_nonempty: "show_nat n \<noteq> []"
  by (subst show_nat.simps) simp

lemma digits_val_snoc: "digits_val (ds @ [c]) = 10 * digits_val ds + (of_char c - 48)"
  by (simp add: digits_val_def)

lemma digits_val_show_nat: "digits_val (show_nat n) = n"
proof (induction n rule: show_nat.induct)
  case (1 n)
  show ?case
  proof (cases "n < 10")
    case True
    then show ?thesis
      by (subst show_nat.simps) (simp add: digits_val_def of_char_digit_char)
  next
    case False
    then have "digits_val (show_nat (n div 10)) = n div 10" using 1 by simp
    with False show ?thesis
      by (subst show_nat.simps) (simp add: digits_val_snoc of_char_digit_char)
  qed
qed

lemma hd_show_nat: "n \<noteq> 0 \<Longrightarrow> hd (show_nat n) \<noteq> CHR ''0''"
proof (induction n rule: show_nat.induct)
  case (1 n)
  show ?case
  proof (cases "n < 10")
    case True
    with 1(2) have "(of_char (digit_char n) :: nat) \<noteq> 48" by (simp add: of_char_digit_char)
    then have "digit_char n \<noteq> CHR ''0''" by auto
    with True show ?thesis by (subst show_nat.simps) simp
  next
    case False
    then have "n div 10 \<noteq> 0" by simp
    with 1(1) False have "hd (show_nat (n div 10)) \<noteq> CHR ''0''" by simp
    with False show ?thesis
      by (subst show_nat.simps) (simp add: show_nat_nonempty)
  qed
qed

lemma show_nat_zero: "show_nat 0 = ''0''"
  by code_simp

lemma length_show_nat_zero: "length (show_nat n) > 1 \<Longrightarrow> n \<noteq> 0"
proof
  assume "length (show_nat n) > 1" and "n = 0"
  then show False by (simp add: show_nat_zero)
qed

lemma takeWhile_digits: "ok_next s \<Longrightarrow> takeWhile is_digit (show_nat n @ s) = show_nat n"
  using show_nat_digits [of n]
  by (cases s) (auto simp: ok_next_def takeWhile_append2 takeWhile_append)

lemma dropWhile_digits: "ok_next s \<Longrightarrow> dropWhile is_digit (show_nat n @ s) = s"
  using show_nat_digits [of n]
  by (cases s) (auto simp: ok_next_def dropWhile_append2 dropWhile_append)

lemma lex_digits_show_nat: "ok_next s \<Longrightarrow> lex_digits (show_nat n @ s) = Some (n, s)"
proof -
  assume ok: "ok_next s"
  have lead: "\<not> (length (show_nat n) > 1 \<and> hd (show_nat n) = CHR ''0'')"
    using hd_show_nat [of n] length_show_nat_zero [of n] by blast
  have nxt: "\<not> (s \<noteq> [] \<and> hd s \<in> {CHR ''.'', CHR ''e'', CHR ''E''})"
    using ok by (auto simp: ok_next_def)
  show ?thesis
    unfolding lex_digits_def Let_def takeWhile_digits [OF ok] dropWhile_digits [OF ok]
    using lead nxt show_nat_nonempty [of n] by (simp add: digits_val_show_nat)
qed

lemma hd_show_nat_not_minus: "hd (show_nat n) \<noteq> CHR ''-''"
proof -
  have "is_digit (hd (show_nat n))"
    using show_nat_digits [of n] show_nat_nonempty [of n] by (cases "show_nat n") auto
  then show ?thesis by (auto simp: is_digit_def)
qed

lemma lex_number_show_int: "ok_next s \<Longrightarrow> lex_number (show_int i @ s) = Some (i, s)"
proof (cases "i < 0")
  case True
  assume "ok_next s"
  then show ?thesis using True
    by (simp add: lex_number_def show_int_def lex_digits_show_nat)
next
  case False
  assume ok: "ok_next s"
  obtain c cs where cs: "show_nat (nat i) = c # cs"
    using show_nat_nonempty [of "nat i"] by (cases "show_nat (nat i)") auto
  have "c \<noteq> CHR ''-''" using hd_show_nat_not_minus [of "nat i"] cs by simp
  moreover have "lex_digits (c # cs @ s) = Some (nat i, s)"
    using lex_digits_show_nat [OF ok, of "nat i"] cs by simp
  ultimately show ?thesis using False cs
    by (simp add: lex_number_def show_int_def)
qed

lemma of_char_less_256: "(of_char c :: nat) < 256"
proof -
  have "(of_char c :: nat) mod 256 < 256" by simp
  then show ?thesis by (simp only: of_char_mod_256)
qed

lemma hex_val_hex_char: "k < 16 \<Longrightarrow> hex_val (hex_char k) = Some k"
  by (simp add: hex_val_def hex_char_def Let_def)

lemma hex_val_zero: "hex_val CHR ''0'' = Some 0"
  by (simp add: hex_val_def)

lemma hex4_escape:
  "hex4 CHR ''0'' CHR ''0'' (hex_char (of_char c div 16)) (hex_char (of_char c mod 16))
     = Some (of_char c)"
proof -
  have "(of_char c :: nat) < 16 * 16" using of_char_less_256 [of c] by simp
  then have d: "(of_char c :: nat) div 16 < 16" by (rule less_mult_imp_div_less)
  have m: "(of_char c :: nat) mod 16 < 16" by simp
  show ?thesis
    by (simp add: hex4_def hex_val_zero hex_val_hex_char [OF d] hex_val_hex_char [OF m])
qed

lemma short_escape_simps:
  "short_escape (CHR 0x22) = Some (CHR 0x22)"
  "short_escape (CHR 0x5C) = Some (CHR 0x5C)"
  "short_escape (CHR ''b'') = Some (CHR 0x08)"
  "short_escape (CHR ''t'') = Some (CHR 0x09)"
  "short_escape (CHR ''n'') = Some (CHR 0x0A)"
  "short_escape (CHR ''f'') = Some (CHR 0x0C)"
  "short_escape (CHR ''r'') = Some (CHR 0x0D)"
  by (simp_all add: short_escape_def)

lemma lex_string_escape_char:
  assumes "rest \<noteq> []"
  shows "lex_string acc (escape_char c @ rest) = lex_string (acc @ [c]) rest"
proof -
  obtain e r where rest: "rest = e # r" using assms by (cases rest) auto
  consider (short) x where "c \<in> {CHR 0x22, CHR 0x5C, CHR 0x08, CHR 0x09, CHR 0x0A, CHR 0x0C, CHR 0x0D}"
      "escape_char c = [CHR 0x5C, x]" "x \<noteq> CHR ''u''" "short_escape x = Some c"
    | (plain) "c \<noteq> CHR 0x22" "c \<noteq> CHR 0x5C" "32 \<le> (of_char c :: nat)" "(of_char c :: nat) < 127"
        "escape_char c = [c]"
    | (hex) "escape_char c = [CHR 0x5C, CHR ''u'', CHR ''0'', CHR ''0'',
            hex_char (of_char c div 16), hex_char (of_char c mod 16)]"
  proof -
    have "c = CHR 0x22 \<or> c = CHR 0x5C \<or> c = CHR 0x08 \<or> c = CHR 0x09 \<or> c = CHR 0x0A
        \<or> c = CHR 0x0C \<or> c = CHR 0x0D
        \<or> (c \<notin> {CHR 0x22, CHR 0x5C, CHR 0x08, CHR 0x09, CHR 0x0A, CHR 0x0C, CHR 0x0D})" by blast
    then show ?thesis
    proof (elim disjE)
      assume "c = CHR 0x22" then show ?thesis
        using short [of "CHR 0x22"] by (simp add: escape_char_def short_escape_simps)
    next
      assume "c = CHR 0x5C" then show ?thesis
        using short [of "CHR 0x5C"] by (simp add: escape_char_def short_escape_simps)
    next
      assume "c = CHR 0x08" then show ?thesis
        using short [of "CHR ''b''"] by (simp add: escape_char_def short_escape_simps)
    next
      assume "c = CHR 0x09" then show ?thesis
        using short [of "CHR ''t''"] by (simp add: escape_char_def short_escape_simps)
    next
      assume "c = CHR 0x0A" then show ?thesis
        using short [of "CHR ''n''"] by (simp add: escape_char_def short_escape_simps)
    next
      assume "c = CHR 0x0C" then show ?thesis
        using short [of "CHR ''f''"] by (simp add: escape_char_def short_escape_simps)
    next
      assume "c = CHR 0x0D" then show ?thesis
        using short [of "CHR ''r''"] by (simp add: escape_char_def short_escape_simps)
    next
      assume n: "c \<notin> {CHR 0x22, CHR 0x5C, CHR 0x08, CHR 0x09, CHR 0x0A, CHR 0x0C, CHR 0x0D}"
      show ?thesis
      proof (cases "32 \<le> (of_char c :: nat) \<and> (of_char c :: nat) < 127")
        case True
        with n show ?thesis using plain by (simp add: escape_char_def)
      next
        case False
        with n show ?thesis using hex by (simp add: escape_char_def)
      qed
    qed
  qed
  then show ?thesis
  proof cases
    case (short x)
    have "CHR 0x5C \<noteq> CHR 0x22" by simp
    then show ?thesis
      using short(2,3,4) by (simp add: rest)
  next
    case plain
    then show ?thesis by (simp add: rest)
  next
    case hex
    have "char_of (of_char c :: nat) = c" by simp
    then show ?thesis
      using hex4_escape [of c] of_char_less_256 [of c] by (simp add: hex rest)
  qed
qed

lemma lex_string_quote:
  "lex_string acc (concat (map escape_char s) @ CHR 0x22 # r) = Some (acc @ s, r)"
proof (induction s arbitrary: acc)
  case Nil
  show ?case by (cases r) simp_all
next
  case (Cons c s)
  have "lex_string acc (escape_char c @ (concat (map escape_char s) @ CHR 0x22 # r))
      = lex_string (acc @ [c]) (concat (map escape_char s) @ CHR 0x22 # r)"
    by (rule lex_string_escape_char) simp
  then show ?case using Cons [of "acc @ [c]"] by simp
qed

lemma render_simps:
  "render sp [] = []"
  "render sp (t # ts) = print_token sp t @ render sp ts"
  "render sp (a @ b) = render sp a @ render sp b"
  by (simp_all add: render_def)

lemma tokens_of_obj:
  "tokens_of (JObj kvs) =
     TLBrace # elems (map (\<lambda>(k, v). TStr k # TColon # tokens_of v) kvs) @ [TRBrace]"
proof -
  have "zip (map fst kvs) (map tokens_of (map snd kvs)) = map (\<lambda>(k, v). (k, tokens_of v)) kvs"
    by (induction kvs) auto
  then show ?thesis by (simp add: case_prod_unfold comp_def)
qed

lemma is_digit_not_special:
  "is_digit c \<Longrightarrow> \<not> is_space c \<and> c \<noteq> CHR ''{'' \<and> c \<noteq> CHR ''}'' \<and> c \<noteq> CHR ''['' \<and>
     c \<noteq> CHR '']'' \<and> c \<noteq> CHR '','' \<and> c \<noteq> CHR '':'' \<and> c \<noteq> CHR 0x22"
  by (auto simp: is_digit_def is_space_def)

lemma lex_space: "lex (CHR '' '' # s) = lex s"
  by (simp add: is_space_def)

lemma lex_lbrace: "lex (CHR ''{'' # s) = map_option (Cons TLBrace) (lex s)"
  by (simp add: is_space_def)

lemma lex_rbrace: "lex (CHR ''}'' # s) = map_option (Cons TRBrace) (lex s)"
  by (simp add: is_space_def)

lemma lex_lbrack: "lex (CHR ''['' # s) = map_option (Cons TLBrack) (lex s)"
  by (simp add: is_space_def)

lemma lex_rbrack: "lex (CHR '']'' # s) = map_option (Cons TRBrack) (lex s)"
  by (simp add: is_space_def)

lemma lex_comma: "lex (CHR '','' # s) = map_option (Cons TComma) (lex s)"
  by (simp add: is_space_def)

lemma lex_colon: "lex (CHR '':'' # s) = map_option (Cons TColon) (lex s)"
  by (simp add: is_space_def)

lemma lex_true: "lex (''true'' @ s) = map_option (Cons TTrue) (lex s)"
  by (simp add: is_space_def is_digit_def)

lemma lex_false: "lex (''false'' @ s) = map_option (Cons TFalse) (lex s)"
  by (simp add: is_space_def is_digit_def)

lemma lex_null: "lex (''null'' @ s) = map_option (Cons TNull) (lex s)"
  by (simp add: is_space_def is_digit_def)

lemma lex_quote: "lex (quote x @ s) = map_option (Cons (TStr x)) (lex s)"
  by (simp add: quote_def is_space_def lex_string_quote)

lemma lex_print_punct:
  "punct t \<Longrightarrow> lex (print_token sp t @ s) = map_option (Cons t) (lex s)"
proof (cases t)
  case TComma
  then show ?thesis by (cases sp) (simp_all only: print_token.simps if_True if_False
      append_Cons append_Nil lex_comma lex_space)
next
  case TColon
  then show ?thesis by (cases sp) (simp_all only: print_token.simps if_True if_False
      append_Cons append_Nil lex_colon lex_space)
next
  case TLBrace
  then show ?thesis by (simp only: print_token.simps append_Cons append_Nil lex_lbrace)
next
  case TRBrace
  then show ?thesis by (simp only: print_token.simps append_Cons append_Nil lex_rbrace)
next
  case TLBrack
  then show ?thesis by (simp only: print_token.simps append_Cons append_Nil lex_lbrack)
next
  case TRBrack
  then show ?thesis by (simp only: print_token.simps append_Cons append_Nil lex_rbrack)
next
  case (TStr x)
  then show ?thesis by (simp only: print_token.simps lex_quote)
next
  case (TInt i)
  assume "punct t"
  with TInt show ?thesis by (simp add: punct_def)
next
  case TTrue
  then show ?thesis by (simp only: print_token.simps lex_true)
next
  case TFalse
  then show ?thesis by (simp only: print_token.simps lex_false)
next
  case TNull
  then show ?thesis by (simp only: print_token.simps lex_null)
qed

lemma lex_show_int:
  assumes "ok_next s"
  shows "lex (show_int i @ s) = map_option (Cons (TInt i)) (lex s)"
proof -
  obtain c cs where cs: "show_int i = c # cs" and hd: "c = CHR ''-'' \<or> is_digit c"
  proof (cases "i < 0")
    case True
    then show ?thesis using that by (simp add: show_int_def)
  next
    case False
    obtain c cs where n: "show_nat (nat i) = c # cs"
      using show_nat_nonempty [of "nat i"] by (cases "show_nat (nat i)") auto
    then have "is_digit c" using show_nat_digits [of "nat i"] by simp
    with n False show ?thesis using that by (simp add: show_int_def)
  qed
  have num: "lex_number (c # cs @ s) = Some (i, s)"
    using lex_number_show_int [OF assms, of i] cs by simp
  have sp: "\<not> is_space c \<and> c \<noteq> CHR ''{'' \<and> c \<noteq> CHR ''}'' \<and> c \<noteq> CHR ''['' \<and>
     c \<noteq> CHR '']'' \<and> c \<noteq> CHR '','' \<and> c \<noteq> CHR '':'' \<and> c \<noteq> CHR 0x22"
  proof (cases "is_digit c")
    case True
    then show ?thesis by (rule is_digit_not_special)
  next
    case False
    with hd have "c = CHR ''-''" by simp
    then show ?thesis by (simp add: is_space_def)
  qed
  then have n1: "is_space c = False" and n2: "(c = CHR ''{'') = False"
    and n3: "(c = CHR ''}'') = False" and n4: "(c = CHR ''['') = False"
    and n5: "(c = CHR '']'') = False" and n6: "(c = CHR '','') = False"
    and n7: "(c = CHR '':'') = False" and n8: "(c = CHR 0x22) = False"
    by simp_all
  have n9: "(c = CHR ''-'' \<or> is_digit c) = True" using hd by simp
  have "lex (c # cs @ s) = map_option (Cons (TInt i)) (lex s)"
    by (subst lex.simps(2))
       (simp only: n1 n2 n3 n4 n5 n6 n7 n8 n9 if_False if_True num option.case prod.case)
  then show ?thesis by (simp only: cs append_Cons)
qed

declare lex.simps [simp del]

lemma lexes_nil: "lexes sp []"
  by (simp add: lexes_def render_simps option.map_ident)

lemma lexes_int: "lexes sp [TInt i]"
  by (simp add: lexes_def render_simps lex_show_int)

lemma lexes_punct: "punct t \<Longrightarrow> lexes sp ts \<Longrightarrow> lexes sp (t # ts)"
  by (simp add: lexes_def render_simps lex_print_punct option.map_comp comp_def)

lemma closer_punct: "closer t \<Longrightarrow> punct t"
  by (auto simp: closer_def punct_def)

lemma ok_next_closer: "closer t \<Longrightarrow> ok_next (print_token sp t @ s)"
  by (cases sp) (auto simp: closer_def ok_next_def is_digit_def)

lemma lexes_append:
  assumes a: "lexes sp a" and t: "closer t" and b: "lexes sp (t # b)"
  shows "lexes sp (a @ t # b)"
  unfolding lexes_def
proof (intro allI impI)
  fix s assume s: "ok_next s"
  have "ok_next (render sp (t # b) @ s)"
    using ok_next_closer [OF t] by (simp add: render_simps)
  then have "lex (render sp a @ render sp (t # b) @ s)
      = map_option (\<lambda>r. a @ r) (lex (render sp (t # b) @ s))"
    using a by (simp add: lexes_def)
  also have "\<dots> = map_option (\<lambda>r. a @ r) (map_option (\<lambda>r. (t # b) @ r) (lex s))"
    using b s by (simp add: lexes_def)
  finally show "lex (render sp (a @ t # b) @ s) = map_option (\<lambda>r. (a @ t # b) @ r) (lex s)"
    by (simp add: render_simps option.map_comp comp_def)
qed

lemma lexes_elems: "(\<forall>x \<in> set xs. lexes sp x) \<Longrightarrow> lexes sp (elems xs)"
proof (induction xs rule: elems.induct)
  case 1
  show ?case by (simp add: lexes_nil)
next
  case (2 x)
  then show ?case by simp
next
  case (3 x y r)
  have "lexes sp (TComma # elems (y # r))"
    using 3 by (intro lexes_punct) (simp_all add: punct_def)
  then show ?case using 3(2) by (simp add: lexes_append closer_def)
qed

lemma lexes_brackets:
  assumes "lexes sp body" "punct l" "closer r"
  shows "lexes sp (l # body @ [r])"
proof -
  have "lexes sp [r]" using assms(3) by (intro lexes_punct closer_punct lexes_nil)
  with assms(1,3) have "lexes sp (body @ [r])" by (intro lexes_append)
  with assms(2) show ?thesis by (intro lexes_punct)
qed

lemma lexes_tokens_of: "lexes sp (tokens_of v)"
proof (induction v)
  case JNull
  show ?case by (simp add: lexes_punct lexes_nil punct_def)
next
  case (JBool b)
  show ?case by (simp add: lexes_punct lexes_nil punct_def)
next
  case (JInt i)
  show ?case by (simp add: lexes_int)
next
  case (JStr s)
  show ?case by (simp add: lexes_punct lexes_nil punct_def)
next
  case (JArr xs)
  then have "lexes sp (elems (map tokens_of xs))" by (intro lexes_elems) simp
  then have "lexes sp (TLBrack # elems (map tokens_of xs) @ [TRBrack])"
    by (rule lexes_brackets) (simp_all add: punct_def closer_def)
  then show ?case by simp
next
  case (JObj kvs)
  have "\<forall>x \<in> set (map (\<lambda>(k, v). TStr k # TColon # tokens_of v) kvs). lexes sp x"
  proof
    fix x assume "x \<in> set (map (\<lambda>(k, v). TStr k # TColon # tokens_of v) kvs)"
    then obtain k v where kv: "(k, v) \<in> set kvs" and x: "x = TStr k # TColon # tokens_of v"
      by auto
    have "lexes sp (tokens_of v)" using JObj [OF kv] by simp
    then show "lexes sp x" unfolding x by (intro lexes_punct) (simp_all add: punct_def)
  qed
  then have "lexes sp (elems (map (\<lambda>(k, v). TStr k # TColon # tokens_of v) kvs))"
    by (rule lexes_elems)
  then have "lexes sp (TLBrace # elems (map (\<lambda>(k, v). TStr k # TColon # tokens_of v) kvs) @ [TRBrace])"
    by (rule lexes_brackets) (simp_all add: punct_def closer_def)
  then show ?case by (simp only: tokens_of_obj)
qed

lemma lex_render_tokens_of: "lex (render sp (tokens_of v)) = Some (tokens_of v)"
proof -
  have "ok_next []" by (simp add: ok_next_def)
  then have "lex (render sp (tokens_of v) @ []) = map_option (\<lambda>r. tokens_of v @ r) (lex [])"
    using lexes_tokens_of [of sp v] unfolding lexes_def by blast
  then show ?thesis by (simp add: lex.simps)
qed

lemma parses_scalar:
  assumes "t \<noteq> TRBrack" and "\<And>st. start_value t st = reduce v st"
  shows "parses [t] v"
  using assms by (auto simp: parses_def)

lemma parsesD:
  "parses ts v \<Longrightarrow> ph = PValue \<or> ph = PFirst \<Longrightarrow>
     run (Expect ph st) (ts @ rest) =
       (case reduce v st of None \<Rightarrow> None | Some s' \<Rightarrow> run s' rest)"
  unfolding parses_def by blast

lemma dict_set_new: "k \<notin> fst ` set kvs \<Longrightarrow> dict_set k v kvs = kvs @ [(k, v)]"
  by (induction kvs) auto

lemma run_arr_body:
  assumes "\<forall>x \<in> set xs. parses (tokens_of x) x" and "xs \<noteq> []" and "ph = PValue \<or> ph = PFirst"
  shows "run (Expect ph (FArr acc # st)) (elems (map tokens_of xs) @ TRBrack # rest) =
           (case reduce (JArr (acc @ xs)) st of None \<Rightarrow> None | Some s' \<Rightarrow> run s' rest)"
  using assms
proof (induction xs arbitrary: acc ph)
  case Nil
  then show ?case by simp
next
  case (Cons x xs)
  have px: "parses (tokens_of x) x" using Cons.prems(1) by simp
  show ?case
  proof (cases xs)
    case Nil
    have "run (Expect ph (FArr acc # st)) (tokens_of x @ TRBrack # rest)
        = run (Expect PNext (FArr (acc @ [x]) # st)) (TRBrack # rest)"
      using parsesD [OF px Cons.prems(3)] by simp
    then show ?thesis using Nil by simp
  next
    case (Cons y r)
    have "run (Expect ph (FArr acc # st))
            (tokens_of x @ TComma # elems (map tokens_of xs) @ TRBrack # rest)
        = run (Expect PNext (FArr (acc @ [x]) # st))
            (TComma # elems (map tokens_of xs) @ TRBrack # rest)"
      using parsesD [OF px Cons.prems(3)] by simp
    also have "\<dots> = run (Expect PValue (FArr (acc @ [x]) # st))
            (elems (map tokens_of xs) @ TRBrack # rest)"
      by simp
    also have "\<dots> = (case reduce (JArr ((acc @ [x]) @ xs)) st of
                         None \<Rightarrow> None | Some s' \<Rightarrow> run s' rest)"
      using Cons.prems(1) Cons by (intro Cons.IH) simp_all
    finally show ?thesis using Cons by simp
  qed
qed

lemma run_obj_body:
  assumes "\<forall>(k, v) \<in> set kvs. parses (tokens_of v) v" and "kvs \<noteq> []"
    and "ph = PKey0 \<or> ph = PKey" and "distinct (map fst (acc @ kvs))"
  shows "run (Expect ph (FObj acc # st))
           (elems (map (\<lambda>(k, v). TStr k # TColon # tokens_of v) kvs) @ TRBrace # rest) =
           (case reduce (JObj (acc @ kvs)) st of None \<Rightarrow> None | Some s' \<Rightarrow> run s' rest)"
  using assms
proof (induction kvs arbitrary: acc ph)
  case Nil
  then show ?case by simp
next
  case (Cons kv kvs)
  obtain k v where kv: "kv = (k, v)" by (cases kv)
  have pv: "parses (tokens_of v) v" using Cons.prems(1) kv by simp
  have new: "k \<notin> fst ` set acc" using Cons.prems(4) kv by auto
  have key: "\<And>more. run (Expect ph (FObj acc # st)) (TStr k # TColon # tokens_of v @ more)
      = run (Expect PNext (FObj (acc @ [(k, v)]) # st)) more"
  proof -
    fix more
    have "run (Expect ph (FObj acc # st)) (TStr k # TColon # tokens_of v @ more)
        = run (Expect PValue (FKey acc k # st)) (tokens_of v @ more)"
      using Cons.prems(3) by auto
    also have "\<dots> = run (Expect PNext (FObj (dict_set k v acc) # st)) more"
      using parsesD [OF pv, of PValue] by simp
    finally show "run (Expect ph (FObj acc # st)) (TStr k # TColon # tokens_of v @ more)
      = run (Expect PNext (FObj (acc @ [(k, v)]) # st)) more"
      by (simp add: dict_set_new [OF new])
  qed
  show ?case
  proof (cases kvs)
    case Nil
    then show ?thesis using key [of "TRBrace # rest"] kv by simp
  next
    case (Cons y r)
    have "run (Expect ph (FObj acc # st))
            (TStr k # TColon # tokens_of v @
               TComma # elems (map (\<lambda>(k, v). TStr k # TColon # tokens_of v) kvs) @ TRBrace # rest)
        = run (Expect PNext (FObj (acc @ [(k, v)]) # st))
            (TComma # elems (map (\<lambda>(k, v). TStr k # TColon # tokens_of v) kvs) @ TRBrace # rest)"
      by (rule key)
    also have "\<dots> = run (Expect PKey (FObj (acc @ [(k, v)]) # st))
            (elems (map (\<lambda>(k, v). TStr k # TColon # tokens_of v) kvs) @ TRBrace # rest)"
      by simp
    also have "\<dots> = (case reduce (JObj ((acc @ [(k, v)]) @ kvs)) st of
                         None \<Rightarrow> None | Some s' \<Rightarrow> run s' rest)"
      using Cons.prems(1,4) Cons kv by (intro Cons.IH) simp_all
    finally show ?thesis using Cons kv by simp
  qed
qed

lemma parses_tokens_of: "wf_json v \<Longrightarrow> parses (tokens_of v) v"
proof (induction v)
  case JNull
  show ?case by (simp add: parses_scalar)
next
  case (JBool b)
  show ?case by (cases b) (simp_all add: parses_scalar)
next
  case (JInt i)
  show ?case by (simp add: parses_scalar)
next
  case (JStr s)
  show ?case by (simp add: parses_scalar)
next
  case (JArr xs)
  have el: "\<forall>x \<in> set xs. parses (tokens_of x) x"
    using JArr by (auto simp: list_all_iff)
  show ?case unfolding parses_def
  proof (intro allI impI)
    fix ph st rest assume ph: "ph = PValue \<or> ph = PFirst"
    show "run (Expect ph st) (tokens_of (JArr xs) @ rest) =
      (case reduce (JArr xs) st of None \<Rightarrow> None | Some s' \<Rightarrow> run s' rest)"
    proof (cases "xs = []")
      case True
      with ph show ?thesis by auto
    next
      case False
      have "run (Expect ph st) (tokens_of (JArr xs) @ rest)
          = run (Expect PFirst (FArr [] # st)) (elems (map tokens_of xs) @ TRBrack # rest)"
        using ph by auto
      also have "\<dots> = (case reduce (JArr ([] @ xs)) st of None \<Rightarrow> None | Some s' \<Rightarrow> run s' rest)"
        using el False by (intro run_arr_body) simp_all
      finally show ?thesis by simp
    qed
  qed
next
  case (JObj kvs)
  have el: "\<forall>(k, v) \<in> set kvs. parses (tokens_of v) v"
  proof (clarify)
    fix k v assume kv: "(k, v) \<in> set kvs"
    then have "wf_json v" using JObj.prems by (auto simp: list_all_iff)
    then show "parses (tokens_of v) v" using JObj.IH [OF kv] by simp
  qed
  have d: "distinct (map fst kvs)" using JObj.prems by simp
  show ?case unfolding parses_def
  proof (intro allI impI)
    fix ph st rest assume ph: "ph = PValue \<or> ph = PFirst"
    show "run (Expect ph st) (tokens_of (JObj kvs) @ rest) =
      (case reduce (JObj kvs) st of None \<Rightarrow> None | Some s' \<Rightarrow> run s' rest)"
    proof (cases "kvs = []")
      case True
      with ph show ?thesis by auto
    next
      case False
      have "run (Expect ph st) (tokens_of (JObj kvs) @ rest)
          = run (Expect PKey0 (FObj [] # st))
              (elems (map (\<lambda>(k, v). TStr k # TColon # tokens_of v) kvs) @ TRBrace # rest)"
        using ph by (auto simp only: tokens_of_obj append_Cons append_assoc append_Nil
            run.simps step.simps start_value.simps option.case token.distinct if_False)
      also have "\<dots> = (case reduce (JObj ([] @ kvs)) st of None \<Rightarrow> None | Some s' \<Rightarrow> run s' rest)"
        using el False d by (intro run_obj_body) simp_all
      finally show ?thesis by simp
    qed
  qed
qed

lemma decode_encode_json: "wf_json v \<Longrightarrow> decode_json (render sp (tokens_of v)) = Some v"
proof -
  assume "wf_json v"
  then have "parses (tokens_of v) v" by (rule parses_tokens_of)
  then have "run (Expect PValue []) (tokens_of v @ []) = Some (Finished v)"
    using parsesD [of "tokens_of v" v PValue "[]" "[]"] by simp
  then show ?thesis by (simp add: decode_json_def lex_render_tokens_of)
qed

lemma codec_ok_reference: "codec_ok (encode_json sp) decode_json"
  by (auto simp: codec_ok_def encode_json_def decode_encode_json)

lemma decode_encode_code_point:
  "decode_utf8 (encode_code_point c @ rest) = map_option (Cons c) (decode_utf8 rest)"
proof (cases "(of_char c :: nat) < 128")
  case True
  then show ?thesis by (cases rest) (simp_all add: encode_code_point_def)
next
  case False
  let ?n = "of_char c :: nat"
  have lt: "?n < 256"
  proof -
    have "?n mod 256 < 256" by simp
    then show ?thesis by (simp only: of_char_mod_256)
  qed
  have ge: "128 \<le> ?n" using False by simp
  have d: "?n div 64 = 2 \<or> ?n div 64 = 3" using lt ge by arith
  have b: "(of_char (char_of (192 + ?n div 64)) :: nat) = 192 + ?n div 64"
    using d by auto
  have m: "?n mod 64 < 64" by simp
  have k: "(of_char (char_of (128 + ?n mod 64)) :: nat) = 128 + ?n mod 64"
    using m by simp
  have again: "char_of ((192 + ?n div 64 - 192) * 64 + (128 + ?n mod 64 - 128)) = c"
  proof -
    have "(192 + ?n div 64 - 192) * 64 + (128 + ?n mod 64 - 128) = ?n" by simp
    then show ?thesis by (simp only: char_of_char)
  qed
  have lead: "\<not> (192 + ?n div 64 < 128)" by simp
  have "decode_utf8 (char_of (192 + ?n div 64) # char_of (128 + ?n mod 64) # rest)
      = map_option (Cons c) (decode_utf8 rest)"
    using d m by (simp only: decode_utf8.simps b k again) auto
  then show ?thesis using False by (simp add: encode_code_point_def)
qed

lemma decode_encode_utf8: "decode_utf8 (encode_utf8 s) = Some s"
proof (induction s)
  case Nil
  show ?case by (simp add: encode_utf8_def)
next
  case (Cons c s)
  have "decode_utf8 (encode_code_point c @ encode_utf8 s)
      = map_option (Cons c) (decode_utf8 (encode_utf8 s))"
    by (rule decode_encode_code_point)
  then show ?case using Cons by (simp add: encode_utf8_def)
qed

lemma libs_ok_reference: "libs_ok reference_libs"
  by (simp add: libs_ok_def reference_libs_def codec_ok_reference decode_encode_utf8)

section \<open>Properties\<close>

subsection \<open>The servicers\<close>

text \<open>
  Claim C8. For a request whose \<open>params\<close> dictionary has no key \<open>name\<close>,
  \<open>GreeterServicer.say_hello\<close> returns \<open>Hello, Guest!\<close>; for a request whose \<open>params\<close> maps
  \<open>name\<close> to a value, it returns \<open>Hello, \<close> followed by that value as the f-string formats
  it and \<open>!\<close>, which for a string \<open>n\<close> is \<open>Hello, n!\<close>.
\<close>

theorem say_hello_greets:
  "(map_of kvs ''name'' = None \<longrightarrow>
      say_hello \<lparr>rpc_method = m, params = JObj kvs\<rparr> = Inr ''Hello, Guest!'') \<and>
   (map_of kvs ''name'' = Some v \<longrightarrow>
      say_hello \<lparr>rpc_method = m, params = JObj kvs\<rparr> = Inr (''Hello, '' @ py_str v @ ''!'')) \<and>
   (map_of kvs ''name'' = Some (JStr n) \<longrightarrow>
      say_hello \<lparr>rpc_method = m, params = JObj kvs\<rparr> = Inr (''Hello, '' @ n @ ''!''))"
  by (simp add: say_hello_def)

theorem say_hello_greets_witness:
  "map_of [(''lang'', JStr ''py'')] ''name'' = None \<and>
   say_hello \<lparr>rpc_method = JStr ''sayHello'', params = JObj [(''lang'', JStr ''py'')]\<rparr>
     = Inr ''Hello, Guest!'' \<and>
   map_of [(''name'', JStr ''PythonUser'')] ''name'' = Some (JStr ''PythonUser'') \<and>
   say_hello \<lparr>rpc_method = JStr ''sayHello'', params = JObj [(''name'', JStr ''PythonUser'')]\<rparr>
     = Inr ''Hello, PythonUser!''"
  using say_hello_greets [of "[(''lang'', JStr ''py'')]" "JStr ''sayHello''" "JNull" "''x''"]
    say_hello_greets [of "[(''name'', JStr ''PythonUser'')]" "JStr ''sayHello''"
      "JStr ''PythonUser''" "''PythonUser''"]
  by simp

lemma starts_with_iff: "starts_with p s \<longleftrightarrow> (\<exists>b. s = p @ b)"
  by (induction p s rule: starts_with.induct) auto

lemma py_in_iff: "py_in p s \<longleftrightarrow> (\<exists>a b. s = a @ p @ b)"
proof (induction s)
  case Nil
  then show ?case by auto
next
  case (Cons c cs)
  show ?case
  proof
    assume "py_in p (c # cs)"
    then consider "starts_with p (c # cs)" | "py_in p cs" by auto
    then show "\<exists>a b. c # cs = a @ p @ b"
    proof cases
      case 1
      then obtain b where "c # cs = p @ b" by (auto simp: starts_with_iff)
      then have "c # cs = [] @ p @ b" by simp
      then show ?thesis by blast
    next
      case 2
      then obtain a b where "cs = a @ p @ b" using Cons.IH by blast
      then have "c # cs = (c # a) @ p @ b" by simp
      then show ?thesis by blast
    qed
  next
    assume "\<exists>a b. c # cs = a @ p @ b"
    then obtain a b where ab: "c # cs = a @ p @ b" by blast
    show "py_in p (c # cs)"
    proof (cases a)
      case Nil
      with ab have "starts_with p (c # cs)" by (auto simp: starts_with_iff)
      then show ?thesis by simp
    next
      case (Cons x a')
      with ab have "cs = a' @ p @ b" by simp
      then have "py_in p cs" using Cons.IH by blast
      then show ?thesis by simp
    qed
  qed
qed

lemma chat_from_requests:
  "chat_from n (map chat_request msgs) =
     (map chat_reply msgs @
        [''Chat session complete. Processed '' @ show_nat (n + length msgs) @ '' messages.''],
      None)"
  by (induction msgs arbitrary: n) (simp_all add: chat_request_def)

text \<open>
  Claim C5. For every sequence of incoming chat messages, \<open>ChatServicer.chat\<close> yields the
  reply to the i-th message in position i (and, after the last one, the line that closes the
  session). A message whose lower-case form contains \<open>hello\<close> gets the welcome line, and a
  message whose lower-case form contains none of the keywords \<open>hello\<close>, \<open>how are you\<close>,
  \<open>services\<close>, \<open>thank you\<close>, \<open>goodbye\<close> as a substring gets exactly
  \<open>I received your message: '<msg>'\<close>.
\<close>

theorem chat_replies_in_order:
  "fst (chat (map chat_request msgs)) =
     map chat_reply msgs @
       [''Chat session complete. Processed '' @ show_nat (length msgs) @ '' messages.''] \<and>
   snd (chat (map chat_request msgs)) = None \<and>
   (\<forall>i. i < length msgs \<longrightarrow> fst (chat (map chat_request msgs)) ! i = chat_reply (msgs ! i)) \<and>
   ((\<exists>a b. py_lower m = a @ ''hello'' @ b) \<longrightarrow>
      chat_reply m = ''Hello! Welcome to our service!'') \<and>
   ((\<forall>k \<in> set chat_keywords. \<not> (\<exists>a b. py_lower m = a @ k @ b)) \<longrightarrow>
      chat_reply m = ''I received your message: '' @ [CHR 0x27] @ m @ [CHR 0x27])"
proof -
  have run: "chat (map chat_request msgs) =
      (map chat_reply msgs @
        [''Chat session complete. Processed '' @ show_nat (length msgs) @ '' messages.''],
       None)"
    by (simp add: chat_def chat_from_requests)
  have pos: "\<forall>i. i < length msgs \<longrightarrow>
      fst (chat (map chat_request msgs)) ! i = chat_reply (msgs ! i)"
    by (simp add: run nth_append)
  have hello: "(\<exists>a b. py_lower m = a @ ''hello'' @ b) \<longrightarrow>
      chat_reply m = ''Hello! Welcome to our service!''"
    using py_in_iff [of "''hello''" "py_lower m"] by (simp add: chat_reply_def)
  have other: "(\<forall>k \<in> set chat_keywords. \<not> (\<exists>a b. py_lower m = a @ k @ b)) \<longrightarrow>
      chat_reply m = ''I received your message: '' @ [CHR 0x27] @ m @ [CHR 0x27]"
  proof
    assume a: "\<forall>k \<in> set chat_keywords. \<not> (\<exists>a b. py_lower m = a @ k @ b)"
    have "\<forall>k \<in> set chat_keywords. \<not> py_in k (py_lower m)"
      using a by (simp only: py_in_iff) 
    then show "chat_reply m = ''I received your message: '' @ [CHR 0x27] @ m @ [CHR 0x27]"
      by (simp add: chat_keywords_def chat_reply_def)
  qed
  show ?thesis using run pos hello other by simp
qed

theorem chat_replies_in_order_witness:
  "fst (chat (map chat_request [''Hello there'', ''what?'', ''GOODBYE''])) ! 0
     = ''Hello! Welcome to our service!'' \<and>
   fst (chat (map chat_request [''Hello there'', ''what?'', ''GOODBYE''])) ! 1
     = ''I received your message: '' @ [CHR 0x27] @ ''what?'' @ [CHR 0x27] \<and>
   fst (chat (map chat_request [''Hello there'', ''what?'', ''GOODBYE''])) ! 2
     = ''Goodbye! Have a great day!'' \<and>
   (\<exists>a b. py_lower ''Hello there'' = a @ ''hello'' @ b) \<and>
   chat_reply ''Hello there'' = ''Hello! Welcome to our service!'' \<and>
   list_all (\<lambda>k. \<not> (\<exists>a b. py_lower ''what?'' = a @ k @ b)) chat_keywords \<and>
   chat_reply ''what?'' = ''I received your message: '' @ [CHR 0x27] @ ''what?'' @ [CHR 0x27]"
proof -
  let ?msgs = "[''Hello there'', ''what?'', ''GOODBYE'']"
  have h1: "\<exists>a b. py_lower ''Hello there'' = a @ ''hello'' @ b"
  proof -
    have "py_in ''hello'' (py_lower ''Hello there'')" by code_simp
    then show ?thesis by (simp only: py_in_iff)
  qed
  have h2: "\<forall>k \<in> set chat_keywords. \<not> (\<exists>a b. py_lower ''what?'' = a @ k @ b)"
  proof -
    have "\<forall>k \<in> set chat_keywords. \<not> py_in k (py_lower ''what?'')" by code_simp
    then show ?thesis by (simp only: py_in_iff)
  qed
  have r0: "chat_reply ''Hello there'' = ''Hello! Welcome to our service!''" 
    using chat_replies_in_order [of ?msgs "''Hello there''"] h1 by blast
  have r1: "chat_reply ''what?'' = ''I received your message: '' @ [CHR 0x27] @ ''what?'' @ [CHR 0x27]"
    using chat_replies_in_order [of ?msgs "''what?''"] h2 by blast
  have r2: "chat_reply ''GOODBYE'' = ''Goodbye! Have a great day!''" by code_simp
  have p: "\<forall>i. i < length ?msgs \<longrightarrow> fst (chat (map chat_request ?msgs)) ! i = chat_reply (?msgs ! i)"
    using chat_replies_in_order [of ?msgs "''what?''"] by blast
  have p0: "fst (chat (map chat_request ?msgs)) ! 0 = chat_reply ''Hello there''"
    using p by (elim allE [of _ 0]) simp
  have p1: "fst (chat (map chat_request ?msgs)) ! 1 = chat_reply ''what?''"
    using p by (elim allE [of _ 1]) simp
  have p2: "fst (chat (map chat_request ?msgs)) ! 2 = chat_reply ''GOODBYE''"
    using p by (elim allE [of _ 2]) simp
  show ?thesis using h1 h2 r0 r1 r2 p0 p1 p2 by (simp add: list_all_iff)
qed

subsection \<open>The user services\<close>

text \<open>
  Claim C10. \<open>UserService.get_user\<close> leaves the service as it was, whatever the request and
  whether or not it raises. \<open>UserService.create_user\<close> changes the \<open>users\<close> map at most at the
  key that is the id of the user in the request: every entry at another key is unchanged,
  and when the request cannot be read (or, with the dataclasses, the id cannot be a key)
  nothing changes. This holds for the service of \<open>current_approach\<close> (\<open>dc_\<close>) and for the one of
  \<open>improved_approach\<close> (\<open>pd_\<close>), which also keeps its serialization format.
\<close>

theorem user_service_frame:
  "fst (dc_get_user L s b) = s \<and>
   fst (pd_get_user L t b) = t \<and>
   (\<forall>request k k'.
      deserialize_create_user_request L b = Inr request \<longrightarrow>
      py_hashable (dc_id (dc_request_user request)) = Inr k \<longrightarrow> k' \<noteq> k \<longrightarrow>
      dc_users (fst (dc_create_user L now s b)) k' = dc_users s k') \<and>
   (\<forall>request k'.
      deserialize_model L b CreateUserRequest (serialization_format t)
        = Inr (MCreateUserRequest request) \<longrightarrow>
      k' \<noteq> pd_id (pd_request_user request) \<longrightarrow>
      pd_users (fst (pd_create_user L now t b)) k' = pd_users t k') \<and>
   ((\<forall>request k.
      deserialize_create_user_request L b = Inr request \<longrightarrow>
      py_hashable (dc_id (dc_request_user request)) \<noteq> Inr k) \<longrightarrow>
    fst (dc_create_user L now s b) = s) \<and>
   ((\<forall>request.
      deserialize_model L b CreateUserRequest (serialization_format t)
        \<noteq> Inr (MCreateUserRequest request)) \<longrightarrow>
    fst (pd_create_user L now t b) = t) \<and>
   serialization_format (fst (pd_create_user L now t b)) = serialization_format t"
proof -
  have g1: "fst (dc_get_user L s b) = s"
    by (simp add: dc_get_user_def split: sum.splits)
  have g2: "fst (pd_get_user L t b) = t"
    by (simp add: pd_get_user_def split: sum.splits model.splits)
  have c1: "\<forall>request k k'.
      deserialize_create_user_request L b = Inr request \<longrightarrow>
      py_hashable (dc_id (dc_request_user request)) = Inr k \<longrightarrow> k' \<noteq> k \<longrightarrow>
      dc_users (fst (dc_create_user L now s b)) k' = dc_users s k'"
    by (simp add: dc_create_user_def Let_def)
  have c2: "\<forall>request k'.
      deserialize_model L b CreateUserRequest (serialization_format t)
        = Inr (MCreateUserRequest request) \<longrightarrow>
      k' \<noteq> pd_id (pd_request_user request) \<longrightarrow>
      pd_users (fst (pd_create_user L now t b)) k' = pd_users t k'"
    by (simp add: pd_create_user_def Let_def)
  have e1: "(\<forall>request k.
      deserialize_create_user_request L b = Inr request \<longrightarrow>
      py_hashable (dc_id (dc_request_user request)) \<noteq> Inr k) \<longrightarrow>
    fst (dc_create_user L now s b) = s"
    by (auto simp: dc_create_user_def Let_def split: sum.splits)
  have e2: "(\<forall>request.
      deserialize_model L b CreateUserRequest (serialization_format t)
        \<noteq> Inr (MCreateUserRequest request)) \<longrightarrow>
    fst (pd_create_user L now t b) = t"
    by (auto simp: pd_create_user_def Let_def split: sum.splits model.splits)
  have f: "serialization_format (fst (pd_create_user L now t b)) = serialization_format t"
    by (simp add: pd_create_user_def Let_def split: sum.splits model.splits)
  from g1 g2 c1 c2 e1 e2 f show ?thesis by blast
qed

theorem user_service_frame_witness:
  "deserialize_create_user_request reference_libs
      ''{\"user\": {\"id\": 1, \"name\": \"Ann\", \"email\": \"a@b\"}}''
     = Inr \<lparr>dc_request_user = \<lparr>dc_id = JInt 1, dc_name = JStr ''Ann'', dc_email = JStr ''a@b'',
             dc_active = JBool True, dc_roles = JArr [], dc_address = None,
             dc_metadata = JObj []\<rparr>\<rparr> \<and>
   py_hashable (JInt 1) = Inr (KInt 1) \<and> KInt 2 \<noteq> KInt 1 \<and>
   dc_users (fst (dc_create_user reference_libs 0 \<lparr>dc_users = [KInt 2 \<mapsto> default_user]\<rparr>
      ''{\"user\": {\"id\": 1, \"name\": \"Ann\", \"email\": \"a@b\"}}'')) (KInt 2)
     = Some default_user \<and>
   deserialize_model reference_libs
      ''{\"user\": {\"id\": 1, \"name\": \"Ann\", \"email\": \"a@b\"}}'' CreateUserRequest JSON
     = Inr (MCreateUserRequest \<lparr>pd_request_user = \<lparr>pd_id = 1, pd_name = ''Ann'',
             pd_email = ''a@b'', pd_active = True, pd_roles = [], pd_address = None,
             pd_metadata = []\<rparr>\<rparr>) \<and>
   pd_users (fst (pd_create_user reference_libs 0
      \<lparr>pd_users = [2 \<mapsto> \<lparr>pd_id = 2, pd_name = ''Bob'', pd_email = ''b@c'', pd_active = False,
                         pd_roles = [''admin''], pd_address = None, pd_metadata = []\<rparr>],
       serialization_format = JSON\<rparr>
      ''{\"user\": {\"id\": 1, \"name\": \"Ann\", \"email\": \"a@b\"}}'')) 2
     = Some \<lparr>pd_id = 2, pd_name = ''Bob'', pd_email = ''b@c'', pd_active = False,
             pd_roles = [''admin''], pd_address = None, pd_metadata = []\<rparr> \<and>
   deserialize_create_user_request reference_libs ''{\"user\": '' = Inl DecodeError \<and>
   fst (dc_create_user reference_libs 0 \<lparr>dc_users = [KInt 2 \<mapsto> default_user]\<rparr> ''{\"user\": '')
     = \<lparr>dc_users = [KInt 2 \<mapsto> default_user]\<rparr> \<and>
   deserialize_model reference_libs ''{\"user\": '' CreateUserRequest JSON = Inl ValidationError \<and>
   fst (pd_create_user reference_libs 0
      \<lparr>pd_users = [2 \<mapsto> \<lparr>pd_id = 2, pd_name = ''Bob'', pd_email = ''b@c'', pd_active = False,
                         pd_roles = [''admin''], pd_address = None, pd_metadata = []\<rparr>],
       serialization_format = JSON\<rparr>
      ''{\"user\": '')
     = \<lparr>pd_users = [2 \<mapsto> \<lparr>pd_id = 2, pd_name = ''Bob'', pd_email = ''b@c'', pd_active = False,
                         pd_roles = [''admin''], pd_address = None, pd_metadata = []\<rparr>],
        serialization_format = JSON\<rparr>"
proof -
  let ?b = "''{\"user\": {\"id\": 1, \"name\": \"Ann\", \"email\": \"a@b\"}}''"
  let ?bad = "''{\"user\": ''"
  let ?bob = "\<lparr>pd_id = 2, pd_name = ''Bob'', pd_email = ''b@c'', pd_active = False,
             pd_roles = [''admin''], pd_address = None, pd_metadata = []\<rparr>"
  let ?s = "\<lparr>dc_users = [KInt 2 \<mapsto> default_user]\<rparr>"
  let ?t = "\<lparr>pd_users = [2 \<mapsto> ?bob], serialization_format = JSON\<rparr>"
  let ?u = "\<lparr>dc_id = JInt 1, dc_name = JStr ''Ann'', dc_email = JStr ''a@b'',
             dc_active = JBool True, dc_roles = JArr [], dc_address = None,
             dc_metadata = JObj []\<rparr>"
  let ?p = "\<lparr>pd_id = 1, pd_name = ''Ann'',
             pd_email = ''a@b'', pd_active = True, pd_roles = [], pd_address = None,
             pd_metadata = []\<rparr>"
  have d1: "deserialize_create_user_request reference_libs ?b = Inr \<lparr>dc_request_user = ?u\<rparr>"
    by code_simp
  have d2: "deserialize_model reference_libs ?b CreateUserRequest JSON
      = Inr (MCreateUserRequest \<lparr>pd_request_user = ?p\<rparr>)"
    by code_simp
  have d3: "deserialize_create_user_request reference_libs ?bad = Inl DecodeError"
    by code_simp
  have d4: "deserialize_model reference_libs ?bad CreateUserRequest JSON = Inl ValidationError"
    by code_simp
  note fr = user_service_frame [of reference_libs ?s ?b ?t 0]
  note fe = user_service_frame [of reference_libs ?s ?bad ?t 0]
  have a1: "dc_users (fst (dc_create_user reference_libs 0 ?s ?b)) (KInt 2) = Some default_user"
    using fr d1 by simp
  have a2: "pd_users (fst (pd_create_user reference_libs 0 ?t ?b)) 2 = Some ?bob"
    using fr d2 by simp
  have a3: "fst (dc_create_user reference_libs 0 ?s ?bad) = ?s"
    using fe d3 by simp
  have a4: "fst (pd_create_user reference_libs 0 ?t ?bad) = ?t"
    using fe d4 by simp
  show ?thesis using d1 d2 d3 d4 a1 a2 a3 a4 by simp
qed

subsection \<open>Round trips through the libraries\<close>

lemma codec_okD: "codec_ok dumps loads \<Longrightarrow> wf_json v \<Longrightarrow> dumps v = Some b \<Longrightarrow> loads b = Some v"
  unfolding codec_ok_def by blast

lemma libs_ok_orjson: "libs_ok L \<Longrightarrow> codec_ok (orjson_dumps L) (orjson_loads L)"
  by (simp add: libs_ok_def)





lemma request_round_trip:
  assumes "libs_ok L" "wf_json (rpc_method m)" "wf_json (params m)"
    and "RequestMessage_serialize L m = Inr b"
  shows "RequestMessage_deserialize L b = Inr m"
proof -
  let ?doc = "JObj [(''method'', rpc_method m), (''params'', params m)]"
  have d: "orjson_dumps L ?doc = Some b"
    using assms(4) by (simp add: RequestMessage_serialize_def split: option.splits)
  have "wf_json ?doc" using assms(2,3) by simp
  then have "orjson_loads L b = Some ?doc"
    using codec_okD [OF libs_ok_orjson [OF assms(1)]] d by blast
  then show ?thesis by (simp add: RequestMessage_deserialize_def)
qed

lemma response_round_trip:
  assumes "libs_ok L" "wf_json (result r)" and "ResponseMessage_serialize L r = Inr b"
  shows "ResponseMessage_deserialize L b = Inr r"
proof -
  let ?doc = "JObj [(''result'', result r)]"
  have d: "orjson_dumps L ?doc = Some b"
    using assms(3) by (simp add: ResponseMessage_serialize_def split: option.splits)
  have "wf_json ?doc" using assms(2) by simp
  then have "orjson_loads L b = Some ?doc"
    using codec_okD [OF libs_ok_orjson [OF assms(1)]] d by blast
  then show ?thesis by (simp add: ResponseMessage_deserialize_def)
qed














subsection \<open>Rejected and accepted input\<close>

lemma py_get_dict: "py_get (JObj kvs) k d = Inr (field_or kvs k d)"
  by (simp add: field_or_def)

lemma py_get_not_dict: "(\<forall>kvs. v \<noteq> JObj kvs) \<Longrightarrow> py_get v k d = Inl AttributeError"
  by (cases v) simp_all

lemma py_getitem_not_dict: "(\<forall>kvs. v \<noteq> JObj kvs) \<Longrightarrow> py_getitem v k = Inl TypeError"
  by (cases v) simp_all

lemma deserialize_address_falsy: "\<not> py_truthy v \<Longrightarrow> deserialize_address v = Inr None"
  by (simp add: deserialize_address_def)

lemma deserialize_address_dict:
  "akvs \<noteq> [] \<Longrightarrow> deserialize_address (JObj akvs) = Inr (Some (filled_address akvs))"
  by (simp add: deserialize_address_def py_get_dict filled_address_def del: py_get.simps)

lemma deserialize_address_not_dict:
  "py_truthy v \<Longrightarrow> (\<forall>kvs. v \<noteq> JObj kvs) \<Longrightarrow> deserialize_address v = Inl AttributeError"
  by (simp add: deserialize_address_def py_get_not_dict)

lemma deserialize_user_dict:
  "deserialize_user (JObj ukvs) =
     (case deserialize_address (field_or ukvs ''address'' JNull) of
        Inl e \<Rightarrow> Inl e
      | Inr a \<Rightarrow> Inr (filled_user ukvs a))"
  by (simp add: deserialize_user_def py_get_dict filled_user_def del: py_get.simps
      split: sum.splits)

lemma deserialize_user_not_dict:
  "(\<forall>kvs. v \<noteq> JObj kvs) \<Longrightarrow> deserialize_user v = Inl AttributeError"
  by (simp add: deserialize_user_def py_get_not_dict)

lemma deserialize_user_empty: "deserialize_user (JObj []) = Inr default_user"
  by (simp add: deserialize_user_def deserialize_address_def default_user_def)

lemma validate_fields_required:
  "k \<in> set (required_keys c) \<Longrightarrow> map_of kvs k = None \<Longrightarrow> validate_fields L c kvs = None"
  by (cases c)
     (auto simp: validate_address_def validate_user_def required_def split: option.splits)

lemma model_validate_not_dict:
  "(\<forall>kvs. v \<noteq> JObj kvs) \<Longrightarrow> model_validate L c v = Inl ValidationError"
  by (cases v) (simp_all add: model_validate_def)

lemma validate_user_required:
  "k \<in> set (required_keys User) \<Longrightarrow> map_of ukvs k = None \<Longrightarrow> validate_user L (JObj ukvs) = None"
  using validate_fields_required [of k User ukvs L] by simp

lemma nested_user_required:
  assumes "k \<in> set (required_keys User)" "map_of ukvs k = None"
    "map_of kvs ''user'' = Some (JObj ukvs)"
  shows "validate_fields L CreateUserRequest kvs = None"
    and "validate_fields L CreateUserResponse kvs = None"
    and "validate_fields L GetUserResponse kvs = None"
  using assms validate_user_required [of k ukvs L]
  by (simp_all add: required_def optional_def validate_optional_user_def)

text \<open>
  Claim C3, as amended. Every decode entry point fails on bytes that it cannot decode.
  \<open>RequestMessage.deserialize\<close> and \<open>ResponseMessage.deserialize\<close> fail with the decoder's
  error on bytes that \<open>orjson\<close> rejects (truncated input among them), with a \<open>TypeError\<close> on
  a document that is not an object, and with a \<open>KeyError\<close> on an object without \<open>method\<close> or
  \<open>params\<close> (without \<open>result\<close> for the response). The four deserializers of
  \<open>current_approach\<close> and the \<open>pydantic\<close> deserializer fail with a \<open>UnicodeDecodeError\<close> on
  bytes that are not UTF-8. On UTF-8 bytes, the deserializers of \<open>current_approach\<close> fail with
  the decoder's error on text that \<open>json\<close> rejects and with an \<open>AttributeError\<close> on a
  document that is not an object; the \<open>pydantic\<close> deserializer fails with a
  \<open>ValidationError\<close> on text that its parser rejects, on a document that is not an object, on
  an object that lacks a required field of the model class (whichever class and field), and
  on a request or response whose \<open>user\<close> object lacks \<open>id\<close>, \<open>name\<close> or \<open>email\<close>.

  The deserializers of \<open>current_approach\<close>, however, accept a JSON object that lacks fields
  and fill every absent field with the default of its \<open>get\<close> call. From an object with the
  entries \<open>kvs\<close>, \<open>deserialize_get_user_request\<close> builds the request whose id is the entry
  \<open>id\<close>, or 0. When the entry \<open>user\<close> (or, absent, the empty dictionary) is an object with
  the entries \<open>ukvs\<close> whose address deserializes to \<open>a\<close>, \<open>deserialize_create_user_request\<close>
  and \<open>deserialize_create_user_response\<close> build the user \<open>filled_user ukvs a\<close>, the response
  with the entries \<open>status\<close> and \<open>created_at\<close>, or the empty string and 0; when that entry is
  not an object they fail with an \<open>AttributeError\<close>. \<open>deserialize_get_user_response\<close> returns
  no user when the entry \<open>user\<close> is absent or false, and the filled user when it is a
  non-empty object. \<open>deserialize_address\<close> returns no address for a false value, the filled
  address for a non-empty object, and fails with an \<open>AttributeError\<close> on any other value.
\<close>

theorem decoders_reject_invalid_json:
  "(orjson_loads L data = None \<longrightarrow>
      RequestMessage_deserialize L data = Inl DecodeError \<and>
      ResponseMessage_deserialize L data = Inl DecodeError) \<and>
   (utf8_decode L data = None \<longrightarrow>
      deserialize_create_user_request L data = Inl UnicodeDecodeError \<and>
      deserialize_create_user_response L data = Inl UnicodeDecodeError \<and>
      deserialize_get_user_request L data = Inl UnicodeDecodeError \<and>
      deserialize_get_user_response L data = Inl UnicodeDecodeError \<and>
      deserialize_model L data c JSON = Inl UnicodeDecodeError) \<and>
   (utf8_decode L data = Some t \<and> json_loads L t = None \<longrightarrow>
      deserialize_create_user_request L data = Inl DecodeError \<and>
      deserialize_create_user_response L data = Inl DecodeError \<and>
      deserialize_get_user_request L data = Inl DecodeError \<and>
      deserialize_get_user_response L data = Inl DecodeError) \<and>
   (utf8_decode L data = Some t \<and> from_json L t = None \<longrightarrow>
      deserialize_model L data c JSON = Inl ValidationError) \<and>
   (orjson_loads L data = Some v \<and> (\<forall>kvs. v \<noteq> JObj kvs) \<longrightarrow>
      RequestMessage_deserialize L data = Inl TypeError \<and>
      ResponseMessage_deserialize L data = Inl TypeError) \<and>
   (orjson_loads L data = Some (JObj kvs) \<and>
      (map_of kvs ''method'' = None \<or> map_of kvs ''params'' = None) \<longrightarrow>
      RequestMessage_deserialize L data = Inl KeyError) \<and>
   (orjson_loads L data = Some (JObj kvs) \<and> map_of kvs ''result'' = None \<longrightarrow>
      ResponseMessage_deserialize L data = Inl KeyError) \<and>
   (utf8_decode L data = Some t \<and> json_loads L t = Some v \<and> (\<forall>kvs. v \<noteq> JObj kvs) \<longrightarrow>
      deserialize_create_user_request L data = Inl AttributeError \<and>
      deserialize_create_user_response L data = Inl AttributeError \<and>
      deserialize_get_user_request L data = Inl AttributeError \<and>
      deserialize_get_user_response L data = Inl AttributeError) \<and>
   (utf8_decode L data = Some t \<and> from_json L t = Some v \<and> (\<forall>kvs. v \<noteq> JObj kvs) \<longrightarrow>
      deserialize_model L data c JSON = Inl ValidationError) \<and>
   (utf8_decode L data = Some t \<and> from_json L t = Some (JObj kvs) \<and>
      k \<in> set (required_keys c) \<and> map_of kvs k = None \<longrightarrow>
      deserialize_model L data c JSON = Inl ValidationError) \<and>
   (utf8_decode L data = Some t \<and> from_json L t = Some (JObj kvs) \<and>
      map_of kvs ''user'' = Some (JObj ukvs) \<and>
      k \<in> set (required_keys User) \<and> map_of ukvs k = None \<longrightarrow>
      deserialize_model L data CreateUserRequest JSON = Inl ValidationError \<and>
      deserialize_model L data CreateUserResponse JSON = Inl ValidationError \<and>
      deserialize_model L data GetUserResponse JSON = Inl ValidationError) \<and>
   (loads_bytes L data = Inr (JObj kvs) \<longrightarrow>
      deserialize_get_user_request L data
        = Inr \<lparr>dc_request_id = field_or kvs ''id'' (JInt 0)\<rparr>) \<and>
   (loads_bytes L data = Inr (JObj kvs) \<and> field_or kvs ''user'' (JObj []) = JObj ukvs \<and>
      deserialize_address (field_or ukvs ''address'' JNull) = Inr a \<longrightarrow>
      deserialize_create_user_request L data = Inr \<lparr>dc_request_user = filled_user ukvs a\<rparr> \<and>
      deserialize_create_user_response L data
        = Inr \<lparr>dc_response_user = filled_user ukvs a,
               dc_status = field_or kvs ''status'' (JStr []),
               dc_created_at = field_or kvs ''created_at'' (JInt 0)\<rparr>) \<and>
   (loads_bytes L data = Inr (JObj kvs) \<and> field_or kvs ''user'' (JObj []) = w \<and>
      (\<forall>ukvs. w \<noteq> JObj ukvs) \<longrightarrow>
      deserialize_create_user_request L data = Inl AttributeError \<and>
      deserialize_create_user_response L data = Inl AttributeError) \<and>
   (loads_bytes L data = Inr (JObj kvs) \<and> \<not> py_truthy (field_or kvs ''user'' JNull) \<longrightarrow>
      deserialize_get_user_response L data = Inr \<lparr>dc_found_user = None\<rparr>) \<and>
   (loads_bytes L data = Inr (JObj kvs) \<and> field_or kvs ''user'' JNull = JObj ukvs \<and>
      ukvs \<noteq> [] \<and> deserialize_address (field_or ukvs ''address'' JNull) = Inr a \<longrightarrow>
      deserialize_get_user_response L data
        = Inr \<lparr>dc_found_user = Some (filled_user ukvs a)\<rparr>) \<and>
   (\<not> py_truthy w \<longrightarrow> deserialize_address w = Inr None) \<and>
   (akvs \<noteq> [] \<longrightarrow> deserialize_address (JObj akvs) = Inr (Some (filled_address akvs))) \<and>
   (py_truthy w \<and> (\<forall>akvs. w \<noteq> JObj akvs) \<longrightarrow> deserialize_address w = Inl AttributeError)"
proof -
  have a: "orjson_loads L data = None \<longrightarrow>
      RequestMessage_deserialize L data = Inl DecodeError \<and>
      ResponseMessage_deserialize L data = Inl DecodeError"
    by (simp add: RequestMessage_deserialize_def ResponseMessage_deserialize_def)
  have b: "utf8_decode L data = None \<longrightarrow>
      deserialize_create_user_request L data = Inl UnicodeDecodeError \<and>
      deserialize_create_user_response L data = Inl UnicodeDecodeError \<and>
      deserialize_get_user_request L data = Inl UnicodeDecodeError \<and>
      deserialize_get_user_response L data = Inl UnicodeDecodeError \<and>
      deserialize_model L data c JSON = Inl UnicodeDecodeError"
    by (simp add: deserialize_create_user_request_def deserialize_create_user_response_def
        deserialize_get_user_request_def deserialize_get_user_response_def loads_bytes_def
        deserialize_model_def deserialize_def)
  have c: "utf8_decode L data = Some t \<and> json_loads L t = None \<longrightarrow>
      deserialize_create_user_request L data = Inl DecodeError \<and>
      deserialize_create_user_response L data = Inl DecodeError \<and>
      deserialize_get_user_request L data = Inl DecodeError \<and>
      deserialize_get_user_response L data = Inl DecodeError"
    by (simp add: deserialize_create_user_request_def deserialize_create_user_response_def
        deserialize_get_user_request_def deserialize_get_user_response_def loads_bytes_def)
  have d: "utf8_decode L data = Some t \<and> from_json L t = None \<longrightarrow>
      deserialize_model L data c JSON = Inl ValidationError"
    by (simp add: deserialize_model_def deserialize_def model_validate_json_def)
  have e: "orjson_loads L data = Some v \<and> (\<forall>kvs. v \<noteq> JObj kvs) \<longrightarrow>
      RequestMessage_deserialize L data = Inl TypeError \<and>
      ResponseMessage_deserialize L data = Inl TypeError"
    by (simp add: RequestMessage_deserialize_def ResponseMessage_deserialize_def
        py_getitem_not_dict)
  have f: "orjson_loads L data = Some (JObj kvs) \<and>
      (map_of kvs ''method'' = None \<or> map_of kvs ''params'' = None) \<longrightarrow>
      RequestMessage_deserialize L data = Inl KeyError"
    by (auto simp: RequestMessage_deserialize_def split: option.splits)
  have g: "orjson_loads L data = Some (JObj kvs) \<and> map_of kvs ''result'' = None \<longrightarrow>
      ResponseMessage_deserialize L data = Inl KeyError"
    by (simp add: ResponseMessage_deserialize_def)
  have h: "utf8_decode L data = Some t \<and> json_loads L t = Some v \<and> (\<forall>kvs. v \<noteq> JObj kvs) \<longrightarrow>
      deserialize_create_user_request L data = Inl AttributeError \<and>
      deserialize_create_user_response L data = Inl AttributeError \<and>
      deserialize_get_user_request L data = Inl AttributeError \<and>
      deserialize_get_user_response L data = Inl AttributeError"
    by (simp add: deserialize_create_user_request_def deserialize_create_user_response_def
        deserialize_get_user_request_def deserialize_get_user_response_def loads_bytes_def
        py_get_not_dict)
  have i: "utf8_decode L data = Some t \<and> from_json L t = Some v \<and> (\<forall>kvs. v \<noteq> JObj kvs) \<longrightarrow>
      deserialize_model L data c JSON = Inl ValidationError"
    by (simp add: deserialize_model_def deserialize_def model_validate_json_def
        model_validate_not_dict)
  have j: "utf8_decode L data = Some t \<and> from_json L t = Some (JObj kvs) \<and>
      k \<in> set (required_keys c) \<and> map_of kvs k = None \<longrightarrow>
      deserialize_model L data c JSON = Inl ValidationError"
    by (auto simp add: deserialize_model_def deserialize_def model_validate_json_def
        model_validate_def validate_fields_required)
  have j2: "utf8_decode L data = Some t \<and> from_json L t = Some (JObj kvs) \<and>
      map_of kvs ''user'' = Some (JObj ukvs) \<and>
      k \<in> set (required_keys User) \<and> map_of ukvs k = None \<longrightarrow>
      deserialize_model L data CreateUserRequest JSON = Inl ValidationError \<and>
      deserialize_model L data CreateUserResponse JSON = Inl ValidationError \<and>
      deserialize_model L data GetUserResponse JSON = Inl ValidationError"
  proof (intro impI, elim conjE)
    assume u: "utf8_decode L data = Some t" and fj: "from_json L t = Some (JObj kvs)"
      and nu: "map_of kvs ''user'' = Some (JObj ukvs)"
      and rk: "k \<in> set (required_keys User)" and mk: "map_of ukvs k = None"
    note vf = nested_user_required [OF rk mk nu, of L]
    show "deserialize_model L data CreateUserRequest JSON = Inl ValidationError \<and>
      deserialize_model L data CreateUserResponse JSON = Inl ValidationError \<and>
      deserialize_model L data GetUserResponse JSON = Inl ValidationError"
      by (simp add: deserialize_model_def deserialize_def model_validate_json_def
          model_validate_def u fj vf del: validate_fields.simps)
  qed
  have l: "loads_bytes L data = Inr (JObj kvs) \<longrightarrow>
      deserialize_get_user_request L data
        = Inr \<lparr>dc_request_id = field_or kvs ''id'' (JInt 0)\<rparr>"
    by (simp add: deserialize_get_user_request_def py_get_dict del: py_get.simps)
  have m: "loads_bytes L data = Inr (JObj kvs) \<and> field_or kvs ''user'' (JObj []) = JObj ukvs \<and>
      deserialize_address (field_or ukvs ''address'' JNull) = Inr a \<longrightarrow>
      deserialize_create_user_request L data = Inr \<lparr>dc_request_user = filled_user ukvs a\<rparr> \<and>
      deserialize_create_user_response L data
        = Inr \<lparr>dc_response_user = filled_user ukvs a,
               dc_status = field_or kvs ''status'' (JStr []),
               dc_created_at = field_or kvs ''created_at'' (JInt 0)\<rparr>"
    by (simp add: deserialize_create_user_request_def deserialize_create_user_response_def
        py_get_dict deserialize_user_dict del: py_get.simps)
  have n: "loads_bytes L data = Inr (JObj kvs) \<and> field_or kvs ''user'' (JObj []) = w \<and>
      (\<forall>ukvs. w \<noteq> JObj ukvs) \<longrightarrow>
      deserialize_create_user_request L data = Inl AttributeError \<and>
      deserialize_create_user_response L data = Inl AttributeError"
    by (auto simp add: deserialize_create_user_request_def deserialize_create_user_response_def
        py_get_dict deserialize_user_not_dict simp del: py_get.simps)
  have p: "loads_bytes L data = Inr (JObj kvs) \<and> \<not> py_truthy (field_or kvs ''user'' JNull) \<longrightarrow>
      deserialize_get_user_response L data = Inr \<lparr>dc_found_user = None\<rparr>"
    by (simp add: deserialize_get_user_response_def py_get_dict del: py_get.simps)
  have q: "loads_bytes L data = Inr (JObj kvs) \<and> field_or kvs ''user'' JNull = JObj ukvs \<and>
      ukvs \<noteq> [] \<and> deserialize_address (field_or ukvs ''address'' JNull) = Inr a \<longrightarrow>
      deserialize_get_user_response L data
        = Inr \<lparr>dc_found_user = Some (filled_user ukvs a)\<rparr>"
    by (simp add: deserialize_get_user_response_def py_get_dict deserialize_user_dict
        del: py_get.simps)
  have r: "\<not> py_truthy w \<longrightarrow> deserialize_address w = Inr None"
    by (simp add: deserialize_address_falsy)
  have s: "akvs \<noteq> [] \<longrightarrow> deserialize_address (JObj akvs) = Inr (Some (filled_address akvs))"
    by (simp add: deserialize_address_dict)
  have u: "py_truthy w \<and> (\<forall>akvs. w \<noteq> JObj akvs) \<longrightarrow> deserialize_address w = Inl AttributeError"
    by (simp add: deserialize_address_not_dict)
  show ?thesis
    by (intro conjI a b c d e f g h i j j2 l m n p q r s u)
qed

text \<open>
  The claim as first stated fails: \<open>{}\<close> is not the encoding of a \<open>CreateUserRequest\<close>, and
  \<open>deserialize_create_user_request\<close> returns a request filled with defaults for it.
\<close>

theorem empty_object_accepted:
  "deserialize_create_user_request reference_libs ''{}''
     = Inr \<lparr>dc_request_user =
             \<lparr>dc_id = JInt 0, dc_name = JStr [], dc_email = JStr [], dc_active = JBool True,
              dc_roles = JArr [], dc_address = None, dc_metadata = JObj []\<rparr>\<rparr>"
  by code_simp

theorem decoders_reject_invalid_json_witness:
  "decode_utf8 [CHR 0xFF] = None \<and>
   RequestMessage_deserialize reference_libs [CHR 0xFF] = Inl DecodeError \<and>
   deserialize_create_user_request reference_libs [CHR 0xFF] = Inl UnicodeDecodeError \<and>
   deserialize_get_user_response reference_libs [CHR 0xFF] = Inl UnicodeDecodeError \<and>
   deserialize_model reference_libs [CHR 0xFF] CreateUserRequest JSON = Inl UnicodeDecodeError \<and>
   decode_json ''{\"user\": {\"id\": 1, '' = None \<and>
   RequestMessage_deserialize reference_libs ''{\"user\": {\"id\": 1, '' = Inl DecodeError \<and>
   deserialize_create_user_request reference_libs ''{\"user\": {\"id\": 1, '' = Inl DecodeError \<and>
   deserialize_model reference_libs ''{\"user\": {\"id\": 1, '' CreateUserRequest JSON
     = Inl ValidationError \<and>
   decode_json ''[1]'' = Some (JArr [JInt 1]) \<and>
   RequestMessage_deserialize reference_libs ''[1]'' = Inl TypeError \<and>
   deserialize_create_user_request reference_libs ''[1]'' = Inl AttributeError \<and>
   deserialize_model reference_libs ''[1]'' GetUserResponse JSON = Inl ValidationError \<and>
   decode_json ''{}'' = Some (JObj []) \<and>
   RequestMessage_deserialize reference_libs ''{}'' = Inl KeyError \<and>
   ResponseMessage_deserialize reference_libs ''{}'' = Inl KeyError \<and>
   deserialize_get_user_request reference_libs ''{}'' = Inr \<lparr>dc_request_id = JInt 0\<rparr> \<and>
   deserialize_get_user_response reference_libs ''{}'' = Inr \<lparr>dc_found_user = None\<rparr> \<and>
   deserialize_model reference_libs ''{}'' GetUserRequest JSON = Inl ValidationError \<and>
   decode_json ''{\"user\": {\"name\": \"Ann\"}, \"status\": \"ok\"}''
     = Some (JObj [(''user'', JObj [(''name'', JStr ''Ann'')]), (''status'', JStr ''ok'')]) \<and>
   deserialize_create_user_request reference_libs
       ''{\"user\": {\"name\": \"Ann\"}, \"status\": \"ok\"}''
     = Inr \<lparr>dc_request_user =
             \<lparr>dc_id = JInt 0, dc_name = JStr ''Ann'', dc_email = JStr [], dc_active = JBool True,
              dc_roles = JArr [], dc_address = None, dc_metadata = JObj []\<rparr>\<rparr> \<and>
   deserialize_create_user_response reference_libs
       ''{\"user\": {\"name\": \"Ann\"}, \"status\": \"ok\"}''
     = Inr \<lparr>dc_response_user =
             \<lparr>dc_id = JInt 0, dc_name = JStr ''Ann'', dc_email = JStr [], dc_active = JBool True,
              dc_roles = JArr [], dc_address = None, dc_metadata = JObj []\<rparr>,
            dc_status = JStr ''ok'', dc_created_at = JInt 0\<rparr> \<and>
   deserialize_get_user_response reference_libs
       ''{\"user\": {\"name\": \"Ann\"}, \"status\": \"ok\"}''
     = Inr \<lparr>dc_found_user = Some
             \<lparr>dc_id = JInt 0, dc_name = JStr ''Ann'', dc_email = JStr [], dc_active = JBool True,
              dc_roles = JArr [], dc_address = None, dc_metadata = JObj []\<rparr>\<rparr> \<and>
   deserialize_model reference_libs ''{\"user\": {\"name\": \"Ann\"}, \"status\": \"ok\"}''
       CreateUserResponse JSON = Inl ValidationError \<and>
   deserialize_model reference_libs ''{\"user\": {\"name\": \"Ann\"}, \"status\": \"ok\"}''
       CreateUserRequest JSON = Inl ValidationError \<and>
   decode_json ''{\"user\": 5}'' = Some (JObj [(''user'', JInt 5)]) \<and>
   deserialize_create_user_request reference_libs ''{\"user\": 5}'' = Inl AttributeError \<and>
   deserialize_create_user_response reference_libs ''{\"user\": 5}'' = Inl AttributeError \<and>
   deserialize_address JNull = Inr None \<and>
   deserialize_address (JObj [(''city'', JStr ''Oslo'')])
     = Inr (Some \<lparr>dc_street = JStr [], dc_city = JStr ''Oslo'', dc_country = JStr [],
                  dc_postal_code = JStr []\<rparr>) \<and>
   deserialize_address (JInt 5) = Inl AttributeError"
proof -
  let ?x = "[CHR 0xFF]"
  let ?t = "''{\"user\": {\"id\": 1, ''"
  let ?p = "''{\"user\": {\"name\": \"Ann\"}, \"status\": \"ok\"}''"
  let ?pu = "[(''name'', JStr ''Ann'')]"
  let ?pk = "[(''user'', JObj ?pu), (''status'', JStr ''ok'')]"
  let ?n = "''{\"user\": 5}''"
  let ?ak = "[(''city'', JStr ''Oslo'')]"
  have l: "orjson_loads reference_libs = decode_json" "json_loads reference_libs = decode_json"
    "from_json reference_libs = decode_json" "utf8_decode reference_libs = decode_utf8"
    by (simp_all add: reference_libs_def)
  have x1: "decode_utf8 ?x = None" by code_simp
  have x2: "decode_json ?x = None" by code_simp
  have u1: "decode_utf8 ?t = Some ?t" by code_simp
  have u2: "decode_utf8 ''[1]'' = Some ''[1]''" by code_simp
  have u3: "decode_utf8 ''{}'' = Some ''{}''" by code_simp
  have u4: "decode_utf8 ?p = Some ?p" by code_simp
  have u5: "decode_utf8 ?n = Some ?n" by code_simp
  have p1: "decode_json ?t = None" by code_simp
  have p2: "decode_json ''[1]'' = Some (JArr [JInt 1])" by code_simp
  have p3: "decode_json ''{}'' = Some (JObj [])" by code_simp
  have p4: "decode_json ?p = Some (JObj ?pk)" by code_simp
  have p5: "decode_json ?n = Some (JObj [(''user'', JInt 5)])" by code_simp
  have q1: "loads_bytes reference_libs ''{}'' = Inr (JObj [])"
    by (simp add: loads_bytes_def l u3 p3)
  have q4: "loads_bytes reference_libs ?p = Inr (JObj ?pk)"
    by (simp add: loads_bytes_def l u4 p4)
  have q5: "loads_bytes reference_libs ?n = Inr (JObj [(''user'', JInt 5)])"
    by (simp add: loads_bytes_def l u5 p5)
  have f1: "field_or [] ''user'' (JObj []) = JObj []" "field_or [] ''user'' JNull = JNull"
    "field_or [] ''address'' JNull = JNull" "field_or [] ''id'' (JInt 0) = JInt 0"
    by (simp_all add: field_or_def)
  have f4: "field_or ?pk ''user'' (JObj []) = JObj ?pu" "field_or ?pk ''user'' JNull = JObj ?pu"
    "field_or ?pu ''address'' JNull = JNull" "field_or ?pk ''status'' (JStr []) = JStr ''ok''"
    "field_or ?pk ''created_at'' (JInt 0) = JInt 0"
    by (simp_all add: field_or_def)
  have f5: "field_or [(''user'', JInt 5)] ''user'' (JObj []) = JInt 5"
    by (simp add: field_or_def)
  have fu: "filled_user ?pu None
      = \<lparr>dc_id = JInt 0, dc_name = JStr ''Ann'', dc_email = JStr [], dc_active = JBool True,
         dc_roles = JArr [], dc_address = None, dc_metadata = JObj []\<rparr>"
    by (simp add: filled_user_def field_or_def)
  have fa: "filled_address ?ak
      = \<lparr>dc_street = JStr [], dc_city = JStr ''Oslo'', dc_country = JStr [],
         dc_postal_code = JStr []\<rparr>"
    by (simp add: filled_address_def field_or_def)
  have m4: "map_of ?pk ''created_at'' = None" "map_of ?pk ''user'' = Some (JObj ?pu)"
    "map_of ?pu ''id'' = None"
    by simp_all
  note t1 = decoders_reject_invalid_json
    [where L = reference_libs and data = ?x and c = CreateUserRequest]
  note t2 = decoders_reject_invalid_json
    [where L = reference_libs and data = ?t and t = ?t and c = CreateUserRequest]
  note t3 = decoders_reject_invalid_json
    [where L = reference_libs and data = "''[1]''" and t = "''[1]''" and v = "JArr [JInt 1]"
       and c = GetUserResponse]
  note t4 = decoders_reject_invalid_json
    [where L = reference_libs and data = "''{}''" and t = "''{}''" and kvs = "[]"
       and c = GetUserRequest and k = "''id''" and ukvs = "[]" and a = None and w = JNull]
  note t5 = decoders_reject_invalid_json
    [where L = reference_libs and data = ?p and t = ?p and kvs = ?pk
       and c = CreateUserResponse and k = "''created_at''" and ukvs = ?pu and a = None]
  note t6 = decoders_reject_invalid_json
    [where L = reference_libs and data = ?p and t = ?p and kvs = ?pk
       and k = "''id''" and ukvs = ?pu]
  note t7 = decoders_reject_invalid_json
    [where L = reference_libs and data = ?n and kvs = "[(''user'', JInt 5)]" and w = "JInt 5"
       and akvs = ?ak]
  have a1: "RequestMessage_deserialize reference_libs ?x = Inl DecodeError"
    and a2: "deserialize_create_user_request reference_libs ?x = Inl UnicodeDecodeError"
    and a3: "deserialize_get_user_response reference_libs ?x = Inl UnicodeDecodeError"
    and a4: "deserialize_model reference_libs ?x CreateUserRequest JSON = Inl UnicodeDecodeError"
    using t1 x1 x2 by (simp_all add: l)
  have b1: "RequestMessage_deserialize reference_libs ?t = Inl DecodeError"
    and b2: "deserialize_create_user_request reference_libs ?t = Inl DecodeError"
    and b3: "deserialize_model reference_libs ?t CreateUserRequest JSON = Inl ValidationError"
    using t2 u1 p1 by (simp_all add: l)
  have c1: "RequestMessage_deserialize reference_libs ''[1]'' = Inl TypeError"
    and c2: "deserialize_create_user_request reference_libs ''[1]'' = Inl AttributeError"
    and c3: "deserialize_model reference_libs ''[1]'' GetUserResponse JSON = Inl ValidationError"
    using t3 u2 p2 by (simp_all add: l)
  have d1: "RequestMessage_deserialize reference_libs ''{}'' = Inl KeyError"
    and d2: "ResponseMessage_deserialize reference_libs ''{}'' = Inl KeyError"
    and d3: "deserialize_get_user_request reference_libs ''{}'' = Inr \<lparr>dc_request_id = JInt 0\<rparr>"
    and d4: "deserialize_get_user_response reference_libs ''{}'' = Inr \<lparr>dc_found_user = None\<rparr>"
    and d5: "deserialize_model reference_libs ''{}'' GetUserRequest JSON = Inl ValidationError"
    and d6: "deserialize_address JNull = Inr None"
    using t4 u3 p3 q1 f1 by (simp_all add: l)
  have e1: "deserialize_create_user_request reference_libs ?p
              = Inr \<lparr>dc_request_user = filled_user ?pu None\<rparr>"
    and e2: "deserialize_create_user_response reference_libs ?p
              = Inr \<lparr>dc_response_user = filled_user ?pu None,
                     dc_status = JStr ''ok'', dc_created_at = JInt 0\<rparr>"
    and e3: "deserialize_get_user_response reference_libs ?p
              = Inr \<lparr>dc_found_user = Some (filled_user ?pu None)\<rparr>"
    and e4: "deserialize_model reference_libs ?p CreateUserResponse JSON = Inl ValidationError"
    using t5 u4 p4 q4 f4 m4 d6 by (simp_all add: l)
  have e5: "deserialize_model reference_libs ?p CreateUserRequest JSON = Inl ValidationError"
    using t6 u4 p4 m4 by (simp add: l)
  have g1: "deserialize_create_user_request reference_libs ?n = Inl AttributeError"
    and g2: "deserialize_create_user_response reference_libs ?n = Inl AttributeError"
    and g3: "deserialize_address (JObj ?ak) = Inr (Some (filled_address ?ak))"
    and g4: "deserialize_address (JInt 5) = Inl AttributeError"
    using t7 q5 f5 by simp_all
  show ?thesis
    using x1 p1 p2 p3 p4 p5 a1 a2 a3 a4 b1 b2 b3 c1 c2 c3 d1 d2 d3 d4 d5 d6
      e1 e2 e3 e4 e5 g1 g2 g3 g4
    by (simp only: fu fa simp_thms)
qed

subsection \<open>The \<open>pydantic\<close> models\<close>





lemma dump_address_not_null: "dump_address a \<noteq> JNull"
  by (simp add: dump_address_def)


lemma dump_user_not_null: "dump_user u \<noteq> JNull"
  by (simp add: dump_user_def)











subsection \<open>The two approaches side by side\<close>






subsection \<open>Calls through the runtime\<close>

lemma names_request_decoded:
  assumes "libs_ok L" and "names_request_serializer L n = Inr f"
  shows "request_deserializer L f = Inr (names_request n)"
  using request_round_trip [OF assms(1), of "names_request n" f] assms(2)
  by (simp add: names_request_serializer_def request_deserializer_def names_request_def)


lemma response_decoded:
  assumes "libs_ok L" and "response_serializer L s = Inr b"
  shows "response_deserializer L b = Inr (JStr s)"
  using response_round_trip [OF assms(1), of "\<lparr>result = JStr s\<rparr>" b] assms(2)
  by (simp add: response_serializer_def response_deserializer_def)

lemma client_frames_Cons:
  "client_frames ser (x # xs) = Frame f # rest \<Longrightarrow> ser x = Inr f \<and> client_frames ser xs = rest"
  by (auto split: sum.splits)

lemma process_four_names:
  "process_names (map names_request [''Alice'', ''Bob'', ''Charlie'', ''David'']) =
     ([''Received name: Alice'', ''Received name: Bob'', ''Received name: Charlie'',
       ''Received name: David''],
      Inr ''Processed 4 names: Alice, Bob, Charlie, David'')"
  by code_simp

text \<open>
  Claim C2. For a client-streaming call whose requests carry the names \<open>Alice\<close>, \<open>Bob\<close>,
  \<open>Charlie\<close>, \<open>David\<close> in that order, \<open>StreamingServicer.process_names\<close> receives the four
  requests in that order (its \<open>print\<close> lines show the names as it sees them) and returns the
  single response \<open>Processed 4 names: Alice, Bob, Charlie, David\<close>; the client reads that
  response as the first outcome of the call, and end-of-stream after it.
\<close>

theorem process_names_in_order:
  assumes "libs_ok L"
    and "client_frames (names_request_serializer L) [''Alice'', ''Bob'', ''Charlie'', ''David'']
           = [Frame f1, Frame f2, Frame f3, Frame f4, CloseWrite]"
    and "response_serializer L ''Processed 4 names: Alice, Bob, Charlie, David'' = Inr rb"
  shows "decode_until_close (request_deserializer L)
           [Frame f1, Frame f2, Frame f3, Frame f4, CloseWrite]
           = Some (Inr (map names_request [''Alice'', ''Bob'', ''Charlie'', ''David''])) \<and>
         process_names (map names_request [''Alice'', ''Bob'', ''Charlie'', ''David'']) =
           ([''Received name: Alice'', ''Received name: Bob'', ''Received name: Charlie'',
             ''Received name: David''],
            Inr ''Processed 4 names: Alice, Bob, Charlie, David'') \<and>
         reads (names_call L [''Alice'', ''Bob'', ''Charlie'', ''David''])
           = [Message rb, EndOfStream] \<and>
         read_response L (names_call L [''Alice'', ''Bob'', ''Charlie'', ''David''])
           = Some (Inr (JStr ''Processed 4 names: Alice, Bob, Charlie, David''))"
proof -
  let ?names = "[''Alice'', ''Bob'', ''Charlie'', ''David'']"
  let ?evs = "[Frame f1, Frame f2, Frame f3, Frame f4, CloseWrite]"
  from client_frames_Cons [OF assms(2)]
  have s1: "names_request_serializer L ''Alice'' = Inr f1"
    and r1: "client_frames (names_request_serializer L) [''Bob'', ''Charlie'', ''David'']
               = [Frame f2, Frame f3, Frame f4, CloseWrite]" by simp_all
  from client_frames_Cons [OF r1]
  have s2: "names_request_serializer L ''Bob'' = Inr f2"
    and r2: "client_frames (names_request_serializer L) [''Charlie'', ''David'']
               = [Frame f3, Frame f4, CloseWrite]" by simp_all
  from client_frames_Cons [OF r2]
  have s3: "names_request_serializer L ''Charlie'' = Inr f3"
    and r3: "client_frames (names_request_serializer L) [''David''] = [Frame f4, CloseWrite]"
    by simp_all
  from client_frames_Cons [OF r3]
  have s4: "names_request_serializer L ''David'' = Inr f4" by simp
  note d = names_request_decoded [OF assms(1) s1] names_request_decoded [OF assms(1) s2]
    names_request_decoded [OF assms(1) s3] names_request_decoded [OF assms(1) s4]
  have dec: "decode_until_close (request_deserializer L) ?evs
      = Some (Inr (map names_request ?names))"
    by (simp add: d)
  have "names_call L ?names =
      respond (response_serializer L) (snd (process_names (map names_request ?names)))"
    unfolding names_call_def dispatch_client_stream_def assms(2) dec
    by (simp only: option.case sum.case)
  also have "\<dots> = completed rb"
    unfolding process_four_names by (simp add: respond_def assms(3))
  finally have call: "names_call L ?names = completed rb" .
  have rd: "reads (names_call L ?names) = [Message rb, EndOfStream]"
    by (simp add: call reads_def completed_def)
  have rr: "read_response L (names_call L ?names)
      = Some (Inr (JStr ''Processed 4 names: Alice, Bob, Charlie, David''))"
    by (simp add: read_response_def rd response_decoded [OF assms(1) assms(3)])
  from dec process_four_names rd rr show ?thesis by blast
qed

theorem process_names_in_order_witness:
  "libs_ok reference_libs \<and>
   client_frames (names_request_serializer reference_libs) [''Alice'', ''Bob'', ''Charlie'', ''David'']
     = [Frame ''{\"method\":\"processNames\",\"params\":{\"name\":\"Alice\"}}'',
        Frame ''{\"method\":\"processNames\",\"params\":{\"name\":\"Bob\"}}'',
        Frame ''{\"method\":\"processNames\",\"params\":{\"name\":\"Charlie\"}}'',
        Frame ''{\"method\":\"processNames\",\"params\":{\"name\":\"David\"}}'',
        CloseWrite] \<and>
   response_serializer reference_libs ''Processed 4 names: Alice, Bob, Charlie, David''
     = Inr ''{\"result\":\"Processed 4 names: Alice, Bob, Charlie, David\"}'' \<and>
   reads (names_call reference_libs [''Alice'', ''Bob'', ''Charlie'', ''David''])
     = [Message ''{\"result\":\"Processed 4 names: Alice, Bob, Charlie, David\"}'', EndOfStream] \<and>
   read_response reference_libs
      (names_call reference_libs [''Alice'', ''Bob'', ''Charlie'', ''David''])
     = Some (Inr (JStr ''Processed 4 names: Alice, Bob, Charlie, David''))"
proof -
  have fr: "client_frames (names_request_serializer reference_libs)
      [''Alice'', ''Bob'', ''Charlie'', ''David'']
     = [Frame ''{\"method\":\"processNames\",\"params\":{\"name\":\"Alice\"}}'',
        Frame ''{\"method\":\"processNames\",\"params\":{\"name\":\"Bob\"}}'',
        Frame ''{\"method\":\"processNames\",\"params\":{\"name\":\"Charlie\"}}'',
        Frame ''{\"method\":\"processNames\",\"params\":{\"name\":\"David\"}}'',
        CloseWrite]"
    by code_simp
  have rs: "response_serializer reference_libs ''Processed 4 names: Alice, Bob, Charlie, David''
     = Inr ''{\"result\":\"Processed 4 names: Alice, Bob, Charlie, David\"}''"
    by code_simp
  note t = process_names_in_order [OF libs_ok_reference fr rs]
  from t have a: "reads (names_call reference_libs [''Alice'', ''Bob'', ''Charlie'', ''David''])
     = [Message ''{\"result\":\"Processed 4 names: Alice, Bob, Charlie, David\"}'', EndOfStream]"
    by blast
  from t have b: "read_response reference_libs
      (names_call reference_libs [''Alice'', ''Bob'', ''Charlie'', ''David''])
     = Some (Inr (JStr ''Processed 4 names: Alice, Bob, Charlie, David''))"
    by blast
  from libs_ok_reference fr rs a b show ?thesis by blast
qed




end
